theory Spec2Isabelle
  imports Complex_Main
begin

section \<open>The marketplace API: data store, guards and resolvers\<close>

text \<open>
  A shallow embedding of the JavaScript sources: the in-memory \<open>DataStore\<close> class,
  \<open>utils/auth.js\<close>, \<open>utils/validation.js\<close> and the resolver modules.  Mutation of the
  singleton store is explicit state passing: every store method and every resolver takes
  the store and returns its result together with the store afterwards.  A thrown
  \<open>GraphQLError\<close> is the left summand of the result.

  What the runtime supplies is a parameter, collected in the record \<open>env\<close>: the clock
  read by \<open>new Date()\<close> and \<open>Date.now()\<close>, the signing secret, \<open>bcrypt.hash\<close> and
  \<open>bcrypt.compare\<close>, and the arithmetic on prices.  Prices are JavaScript numbers, the
  type \<open>number\<close> below, with the product \<open>js_multiply\<close> and the comparison
  \<open>js_le_zero\<close>.  The store and the resolvers are written over a type variable \<open>'p\<close> of
  prices with the product \<open>multiply\<close> and the comparison \<open>le_zero\<close> of the environment,
  so that what does not depend on the arithmetic is proved once for every arithmetic;
  a property about the value of a product fixes them to those of \<open>number\<close>.
  Identifiers, quantities, page numbers and limits are GraphQL
  \<open>Int\<close> values and are modelled by \<open>int\<close>.  A time stamp is the reading of the clock,
  and the reads of the clock within one request give the same time.  An optional field
  of an input object is an \<open>option\<close>: \<open>None\<close> is the omitted field, and an explicit
  \<open>null\<close> is not modelled.
\<close>

subsection \<open>Errors\<close>

datatype error_code =
  NOT_FOUND | AUTHENTICATION_ERROR | UNAUTHENTICATED | FORBIDDEN | CONFLICT
  | VALIDATION_ERROR | INVALID_OPERATION | INTERNAL_ERROR

text \<open>
  \<open>extensions.details\<close> is a string, a template string with an identifier spliced in
  (\<open>WithId prefix id suffix\<close>), or an object \<open>{field, message}\<close>.
\<close>

datatype details = Text string | WithId string int string | FieldMessage string string

text \<open>
  What a resolver throws: a \<open>GraphQLError\<close>, or a plain JavaScript error (a
  \<open>TypeError\<close> of the language, an \<open>Error\<close> of a library).
\<close>

datatype thrown =
  GraphQLError (message: string) (code: error_code) (details: details)
  | TypeError
  | Error string

subsection \<open>Strings\<close>

text \<open>
  A JavaScript string is a sequence of UTF-16 code units; \<open>length\<close> counts them and a
  regular expression without the \<open>u\<close> flag matches them one by one.  A \<open>string\<close> of
  this theory holds the UTF-8 encoding of the JavaScript string, so that a literal of
  the source is the same literal here, and \<open>utf16\<close> gives the code units: a well-formed
  sequence of two, three or four bytes is one code point, a code point above \<open>0xFFFF\<close>
  is a surrogate pair, and a byte that starts no well-formed sequence stands for the
  code unit of its own value (so the byte \<open>0xA0\<close> alone also reads as \<open>U+00A0\<close>).
\<close>

definition continuation :: "char \<Rightarrow> bool" where
  "continuation c = (128 \<le> (of_char c :: int) \<and> (of_char c :: int) < 192)"

definition sequence :: "int \<Rightarrow> int \<Rightarrow> int \<Rightarrow> nat \<Rightarrow> string \<Rightarrow> (int \<times> nat) option" where
  "sequence lead lowest highest n cs =
     (if length cs < n \<or> \<not> list_all continuation (take n cs) then None
      else let cp = foldl (\<lambda>acc c. acc * 64 + (of_char c - 128)) lead (take n cs)
           in if lowest \<le> cp \<and> cp \<le> highest \<and> \<not> (0xD800 \<le> cp \<and> cp \<le> 0xDFFF)
              then Some (cp, n) else None)"

definition code_point :: "char \<Rightarrow> string \<Rightarrow> int \<times> nat" where
  "code_point a cs =
     (let b = of_char a :: int;
          found = (if 192 \<le> b \<and> b < 224 then sequence (b - 192) 0x80 0x7FF 1 cs
                   else if 224 \<le> b \<and> b < 240 then sequence (b - 224) 0x800 0xFFFF 2 cs
                   else if 240 \<le> b \<and> b < 248 then sequence (b - 240) 0x10000 0x10FFFF 3 cs
                   else None)
      in case found of None \<Rightarrow> (b, 0) | Some r \<Rightarrow> r)"

definition code_units :: "int \<Rightarrow> int list" where
  "code_units cp =
     (if cp < 0x10000 then [cp]
      else [0xD800 + (cp - 0x10000) div 1024, 0xDC00 + (cp - 0x10000) mod 1024])"

fun utf16 :: "string \<Rightarrow> int list" where
  "utf16 [] = []"
| "utf16 (a # cs) = (case code_point a cs of (cp, n) \<Rightarrow> code_units cp @ utf16 (drop n cs))"

declare utf16.simps [simp del]

subsection \<open>Numbers\<close>

text \<open>
  A JavaScript number is an IEEE 754 double.  \<open>Double m e\<close> is the finite number
  \<open>m * 2 ^ e\<close>; the doubles are the ones with \<open>\<bar>m\<bar> < 2 ^ 53\<close> and \<open>e\<close> from \<open>- 1074\<close> to
  \<open>971\<close>.  The sign of a zero is not kept.  \<open>round_to_double M E\<close> is the double nearest
  to \<open>M * 2 ^ E\<close>, a tie going to the even mantissa, and an infinity beyond the largest
  double; the mantissa of the result has 53 bits where the smallest exponent allows it.
\<close>

datatype number = Double int int | PositiveInfinity | NegativeInfinity | NotANumber

function bit_length :: "int \<Rightarrow> int" where
  "bit_length n = (if n \<le> 0 then 0 else 1 + bit_length (n div 2))"
  by pat_completeness auto
termination
  by (relation "measure nat") auto

declare bit_length.simps [simp del]

definition round_half_even :: "int \<Rightarrow> int \<Rightarrow> int" where
  "round_half_even n d =
     (let q = n div d; r = n mod d
      in if 2 * r < d then q
         else if d < 2 * r then q + 1
         else if even q then q else q + 1)"

definition round_to_double :: "int \<Rightarrow> int \<Rightarrow> number" where
  "round_to_double M E =
     (if M = 0 then Double 0 (- 1074)
      else let e = max (E + bit_length \<bar>M\<bar> - 53) (- 1074);
               m = (if e \<le> E then \<bar>M\<bar> * 2 ^ nat (E - e)
                    else round_half_even \<bar>M\<bar> (2 ^ nat (e - E)));
               m' = (if m = 2 ^ 53 then 2 ^ 52 else m);
               e' = (if m = 2 ^ 53 then e + 1 else e)
           in if 971 < e' then (if 0 < M then PositiveInfinity else NegativeInfinity)
              else Double (sgn M * m') e')"

text \<open>
  The operator \<open>*\<close> on a price and a quantity, which is a GraphQL \<open>Int\<close> and so a double
  that is an integer: the exact product, rounded.
\<close>

fun js_multiply :: "number \<Rightarrow> int \<Rightarrow> number" where
  "js_multiply (Double m e) q = round_to_double (m * q) e"
| "js_multiply PositiveInfinity q =
     (if 0 < q then PositiveInfinity else if q < 0 then NegativeInfinity else NotANumber)"
| "js_multiply NegativeInfinity q =
     (if 0 < q then NegativeInfinity else if q < 0 then PositiveInfinity else NotANumber)"
| "js_multiply NotANumber q = NotANumber"

text \<open>The comparison \<open>price <= 0\<close>.\<close>

fun js_le_zero :: "number \<Rightarrow> bool" where
  "js_le_zero (Double m e) = (m \<le> 0)"
| "js_le_zero NegativeInfinity = True"
| "js_le_zero PositiveInfinity = False"
| "js_le_zero NotANumber = False"

text \<open>
  The rational number that a finite double is, and what the spec asks of a total price:
  that it is the price multiplied by the quantity, as numbers.
\<close>

fun number_value :: "number \<Rightarrow> rat option" where
  "number_value (Double m e) = Some (of_int m * power_int 2 e)"
| "number_value other = None"

definition exact_product :: "number \<Rightarrow> int \<Rightarrow> number \<Rightarrow> bool" where
  "exact_product p q r =
     (case (number_value p, number_value r) of
        (Some a, Some b) \<Rightarrow> b = a * of_int q
      | other \<Rightarrow> False)"

subsection \<open>Entities\<close>

record user =
  user_id :: int
  username :: string
  email :: string
  password :: "string option"
  user_createdAt :: "nat option"
  user_updatedAt :: "nat option"

datatype image = File string | Placeholder nat nat

record 'p listing =
  listing_id :: int
  title :: string
  description :: string
  price :: 'p
  category :: "string option"
  condition :: "string option"
  location :: "string option"
  images :: "image list"
  listing_userId :: int
  listing_createdAt :: nat
  listing_updatedAt :: nat

record address =
  street :: string
  city :: string
  state :: string
  zipCode :: string
  country :: string

record 'p order =
  order_id :: int
  order_userId :: int
  listingId :: int
  quantity :: int
  totalPrice :: 'p
  status :: string
  shippingAddress :: address
  buyerNotes :: "string option"
  cancelReason :: "string option"
  cancelledAt :: "nat option"
  order_createdAt :: nat
  order_updatedAt :: nat

subsection \<open>Tokens\<close>

text \<open>
  The \<open>jsonwebtoken\<close> library, idealised: a signed token carries its payload and the key
  it was signed with, and verification succeeds exactly when the key is the verifier's
  secret and the token has not expired.  Any other bearer string is \<open>Opaque\<close>.
  Times inside a token are seconds, the clock of the environment is milliseconds.
\<close>

record payload =
  payload_id :: int
  payload_email :: string
  payload_username :: string
  payload_iat :: nat
  payload_exp :: nat

datatype token = Jwt payload string | Opaque string

definition jwt_sign :: "int \<Rightarrow> string \<Rightarrow> string \<Rightarrow> string \<Rightarrow> nat \<Rightarrow> nat \<Rightarrow> token" where
  "jwt_sign i e u key expiresIn clock =
     Jwt \<lparr>payload_id = i, payload_email = e, payload_username = u,
          payload_iat = clock div 1000, payload_exp = clock div 1000 + expiresIn\<rparr> key"

fun jwt_verify :: "token \<Rightarrow> string \<Rightarrow> nat \<Rightarrow> payload option" where
  "jwt_verify (Jwt p key) secret clock =
     (if key = secret \<and> clock div 1000 < payload_exp p then Some p else None)"
| "jwt_verify (Opaque t) secret clock = None"

subsection \<open>The environment\<close>

record 'p env =
  now :: nat
  JWT_SECRET :: string
  bcrypt_hash :: "string \<Rightarrow> string"
  bcrypt_compare :: "string \<Rightarrow> string \<Rightarrow> bool"
  multiply :: "'p \<Rightarrow> int \<Rightarrow> 'p"
  le_zero :: "'p \<Rightarrow> bool"

subsection \<open>The data store\<close>

record 'p store =
  users :: "user list"
  listings :: "'p listing list"
  orders :: "'p order list"
  sessions :: "token set"
  nextUserId :: int
  nextListingId :: int
  nextOrderId :: int

text \<open>\<open>Array.prototype.findIndex\<close>; \<open>None\<close> is the source's \<open>-1\<close>.\<close>

fun findIndex :: "('a \<Rightarrow> bool) \<Rightarrow> 'a list \<Rightarrow> nat option" where
  "findIndex P [] = None"
| "findIndex P (x # xs) = (if P x then Some 0 else map_option Suc (findIndex P xs))"

text \<open>\<open>xs.splice(i, 1)\<close>.\<close>

definition splice1 :: "nat \<Rightarrow> 'a list \<Rightarrow> 'a list" where
  "splice1 i xs = take i xs @ drop (Suc i) xs"

text \<open>JavaScript truthiness of an optional number and of an optional string.\<close>

fun truthy_int :: "int option \<Rightarrow> bool" where
  "truthy_int None = False"
| "truthy_int (Some n) = (n \<noteq> 0)"

fun truthy_str :: "string option \<Rightarrow> bool" where
  "truthy_str None = False"
| "truthy_str (Some t) = (t \<noteq> [])"

subsubsection \<open>Users\<close>

record user_data =
  data_username :: string
  data_email :: string
  data_password :: string

definition dataStore_createUser :: "'p env \<Rightarrow> user_data \<Rightarrow> 'p store \<Rightarrow> user \<times> 'p store" where
  "dataStore_createUser E userData s =
     (let u = \<lparr>user_id = nextUserId s, username = data_username userData,
                email = data_email userData, password = Some (data_password userData),
                user_createdAt = Some (now E), user_updatedAt = Some (now E)\<rparr>
      in (u, s\<lparr>users := users s @ [u], nextUserId := nextUserId s + 1\<rparr>))"

definition getUserById :: "'p store \<Rightarrow> int \<Rightarrow> user option" where
  "getUserById s i = find (\<lambda>u. user_id u = i) (users s)"

definition getUserByEmail :: "'p store \<Rightarrow> string \<Rightarrow> user option" where
  "getUserByEmail s e = find (\<lambda>u. email u = e) (users s)"

text \<open>
  Modelled from the spec: the GraphQL input type \<open>UserUpdateInput\<close> is declared in
  \<open>schema/schema.graphql\<close>, which is not among the sources.  The resolver copies every
  key of its input into the updates and the store spreads them over the record, so the
  input is modelled with every key of a user optional; the key \<open>updatedAt\<close> is
  overwritten by the store and left out.
\<close>

record user_updates =
  upd_user_id :: "int option"
  upd_username :: "string option"
  upd_email :: "string option"
  upd_password :: "string option"
  upd_user_createdAt :: "nat option"

text \<open>The spread \<open>{...user, ...updates, updatedAt}\<close>: a key present in the updates wins.\<close>

definition merge_user :: "nat \<Rightarrow> user \<Rightarrow> user_updates \<Rightarrow> user" where
  "merge_user t u upd =
     u\<lparr>user_id := (case upd_user_id upd of None \<Rightarrow> user_id u | Some v \<Rightarrow> v),
       username := (case upd_username upd of None \<Rightarrow> username u | Some v \<Rightarrow> v),
       email := (case upd_email upd of None \<Rightarrow> email u | Some v \<Rightarrow> v),
       password := (case upd_password upd of None \<Rightarrow> password u | Some v \<Rightarrow> Some v),
       user_createdAt :=
         (case upd_user_createdAt upd of None \<Rightarrow> user_createdAt u | Some v \<Rightarrow> Some v),
       user_updatedAt := Some t\<rparr>"

definition dataStore_updateUser ::
  "'p env \<Rightarrow> int \<Rightarrow> user_updates \<Rightarrow> 'p store \<Rightarrow> user option \<times> 'p store" where
  "dataStore_updateUser E i upd s =
     (case findIndex (\<lambda>u. user_id u = i) (users s) of
        None \<Rightarrow> (None, s)
      | Some userIndex \<Rightarrow>
          (let u = merge_user (now E) (users s ! userIndex) upd
           in (Some u, s\<lparr>users := (users s)[userIndex := u]\<rparr>)))"

definition dataStore_deleteUser :: "int \<Rightarrow> 'p store \<Rightarrow> bool \<times> 'p store" where
  "dataStore_deleteUser i s =
     (case findIndex (\<lambda>u. user_id u = i) (users s) of
        None \<Rightarrow> (False, s)
      | Some userIndex \<Rightarrow> (True, s\<lparr>users := splice1 userIndex (users s)\<rparr>))"

subsubsection \<open>Listings\<close>

record 'p listing_data =
  data_title :: string
  data_description :: string
  data_price :: 'p
  data_category :: "string option"
  data_condition :: "string option"
  data_location :: "string option"
  data_images :: "image list"
  data_userId :: int

definition dataStore_createListing ::
  "'p env \<Rightarrow> 'p listing_data \<Rightarrow> 'p store \<Rightarrow> 'p listing \<times> 'p store" where
  "dataStore_createListing E d s =
     (let l = \<lparr>listing_id = nextListingId s, title = data_title d,
                description = data_description d, price = data_price d,
                category = data_category d, condition = data_condition d,
                location = data_location d, images = data_images d,
                listing_userId = data_userId d,
                listing_createdAt = now E, listing_updatedAt = now E\<rparr>
      in (l, s\<lparr>listings := listings s @ [l], nextListingId := nextListingId s + 1\<rparr>))"

definition getListingById :: "'p store \<Rightarrow> int \<Rightarrow> 'p listing option" where
  "getListingById s i = find (\<lambda>l. listing_id l = i) (listings s)"

text \<open>
  Modelled from the spec: the GraphQL input type \<open>ListingUpdateInput\<close> is declared in
  \<open>schema/schema.graphql\<close>, which is not among the sources.  The resolver copies every
  key of its input into the updates and the store spreads them over the record, so the
  input is modelled with every key of a listing optional; the key \<open>updatedAt\<close> is
  overwritten by the store and left out.
\<close>

record 'p listing_updates =
  upd_listing_id :: "int option"
  upd_title :: "string option"
  upd_description :: "string option"
  upd_price :: "'p option"
  upd_category :: "string option"
  upd_condition :: "string option"
  upd_location :: "string option"
  upd_images :: "image list option"
  upd_listing_userId :: "int option"
  upd_listing_createdAt :: "nat option"

definition merge_listing :: "nat \<Rightarrow> 'p listing \<Rightarrow> 'p listing_updates \<Rightarrow> 'p listing" where
  "merge_listing t l upd =
     l\<lparr>listing_id := (case upd_listing_id upd of None \<Rightarrow> listing_id l | Some v \<Rightarrow> v),
       title := (case upd_title upd of None \<Rightarrow> title l | Some v \<Rightarrow> v),
       description := (case upd_description upd of None \<Rightarrow> description l | Some v \<Rightarrow> v),
       price := (case upd_price upd of None \<Rightarrow> price l | Some v \<Rightarrow> v),
       category := (case upd_category upd of None \<Rightarrow> category l | Some v \<Rightarrow> Some v),
       condition := (case upd_condition upd of None \<Rightarrow> condition l | Some v \<Rightarrow> Some v),
       location := (case upd_location upd of None \<Rightarrow> location l | Some v \<Rightarrow> Some v),
       images := (case upd_images upd of None \<Rightarrow> images l | Some v \<Rightarrow> v),
       listing_userId :=
         (case upd_listing_userId upd of None \<Rightarrow> listing_userId l | Some v \<Rightarrow> v),
       listing_createdAt :=
         (case upd_listing_createdAt upd of None \<Rightarrow> listing_createdAt l | Some v \<Rightarrow> v),
       listing_updatedAt := t\<rparr>"

definition dataStore_updateListing ::
  "'p env \<Rightarrow> int \<Rightarrow> 'p listing_updates \<Rightarrow> 'p store \<Rightarrow> 'p listing option \<times> 'p store" where
  "dataStore_updateListing E i upd s =
     (case findIndex (\<lambda>l. listing_id l = i) (listings s) of
        None \<Rightarrow> (None, s)
      | Some listingIndex \<Rightarrow>
          (let l = merge_listing (now E) (listings s ! listingIndex) upd
           in (Some l, s\<lparr>listings := (listings s)[listingIndex := l]\<rparr>)))"

definition dataStore_deleteListing :: "int \<Rightarrow> 'p store \<Rightarrow> bool \<times> 'p store" where
  "dataStore_deleteListing i s =
     (case findIndex (\<lambda>l. listing_id l = i) (listings s) of
        None \<Rightarrow> (False, s)
      | Some listingIndex \<Rightarrow> (True, s\<lparr>listings := splice1 listingIndex (listings s)\<rparr>))"

subsubsection \<open>Orders\<close>

record 'p order_data =
  data_order_userId :: int
  data_listingId :: int
  data_quantity :: int
  data_totalPrice :: 'p
  data_shippingAddress :: address
  data_buyerNotes :: "string option"

definition dataStore_createOrder ::
  "'p env \<Rightarrow> 'p order_data \<Rightarrow> 'p store \<Rightarrow> 'p order \<times> 'p store" where
  "dataStore_createOrder E d s =
     (let order = \<lparr>order_id = nextOrderId s, order_userId = data_order_userId d,
                    listingId = data_listingId d, quantity = data_quantity d,
                    totalPrice = data_totalPrice d, status = ''PENDING'',
                    shippingAddress = data_shippingAddress d,
                    buyerNotes = data_buyerNotes d,
                    cancelReason = None, cancelledAt = None,
                    order_createdAt = now E, order_updatedAt = now E\<rparr>
      in (order, s\<lparr>orders := orders s @ [order], nextOrderId := nextOrderId s + 1\<rparr>))"

definition getOrderById :: "'p store \<Rightarrow> int \<Rightarrow> 'p order option" where
  "getOrderById s i = find (\<lambda>order. order_id order = i) (orders s)"

text \<open>
  Modelled from the spec: the GraphQL input type \<open>OrderUpdateInput\<close> is declared in
  \<open>schema/schema.graphql\<close>, which is not among the sources, and the spec lists no
  fields for it (an update shallow-merges partial fields over the existing record).  The
  resolver copies every key of its input into the updates and the store spreads them
  over the record, so the input is modelled with every key of an order optional; the key
  \<open>updatedAt\<close> is overwritten by the store and left out.
\<close>

record 'p order_updates =
  upd_order_id :: "int option"
  upd_order_userId :: "int option"
  upd_listingId :: "int option"
  upd_quantity :: "int option"
  upd_totalPrice :: "'p option"
  upd_status :: "string option"
  upd_shippingAddress :: "address option"
  upd_buyerNotes :: "string option"
  upd_cancelReason :: "string option"
  upd_cancelledAt :: "nat option"
  upd_order_createdAt :: "nat option"

definition merge_order :: "nat \<Rightarrow> 'p order \<Rightarrow> 'p order_updates \<Rightarrow> 'p order" where
  "merge_order t order upd =
     order\<lparr>order_id := (case upd_order_id upd of None \<Rightarrow> order_id order | Some v \<Rightarrow> v),
           order_userId :=
             (case upd_order_userId upd of None \<Rightarrow> order_userId order | Some v \<Rightarrow> v),
           listingId := (case upd_listingId upd of None \<Rightarrow> listingId order | Some v \<Rightarrow> v),
           quantity := (case upd_quantity upd of None \<Rightarrow> quantity order | Some v \<Rightarrow> v),
           totalPrice := (case upd_totalPrice upd of None \<Rightarrow> totalPrice order | Some v \<Rightarrow> v),
           status := (case upd_status upd of None \<Rightarrow> status order | Some v \<Rightarrow> v),
           shippingAddress :=
             (case upd_shippingAddress upd of None \<Rightarrow> shippingAddress order | Some v \<Rightarrow> v),
           buyerNotes :=
             (case upd_buyerNotes upd of None \<Rightarrow> buyerNotes order | Some v \<Rightarrow> Some v),
           cancelReason :=
             (case upd_cancelReason upd of None \<Rightarrow> cancelReason order | Some v \<Rightarrow> Some v),
           cancelledAt :=
             (case upd_cancelledAt upd of None \<Rightarrow> cancelledAt order | Some v \<Rightarrow> Some v),
           order_createdAt :=
             (case upd_order_createdAt upd of None \<Rightarrow> order_createdAt order | Some v \<Rightarrow> v),
           order_updatedAt := t\<rparr>"

definition dataStore_updateOrder ::
  "'p env \<Rightarrow> int \<Rightarrow> 'p order_updates \<Rightarrow> 'p store \<Rightarrow> 'p order option \<times> 'p store" where
  "dataStore_updateOrder E i upd s =
     (case findIndex (\<lambda>order. order_id order = i) (orders s) of
        None \<Rightarrow> (None, s)
      | Some orderIndex \<Rightarrow>
          (let order = merge_order (now E) (orders s ! orderIndex) upd
           in (Some order, s\<lparr>orders := (orders s)[orderIndex := order]\<rparr>)))"

definition dataStore_deleteOrder :: "int \<Rightarrow> 'p store \<Rightarrow> bool \<times> 'p store" where
  "dataStore_deleteOrder i s =
     (case findIndex (\<lambda>order. order_id order = i) (orders s) of
        None \<Rightarrow> (False, s)
      | Some orderIndex \<Rightarrow> (True, s\<lparr>orders := splice1 orderIndex (orders s)\<rparr>))"

text \<open>\<open>cancelReason || 'No reason provided'\<close>: an absent and an empty reason are falsy.\<close>

definition dataStore_cancelOrder ::
  "'p env \<Rightarrow> int \<Rightarrow> string option \<Rightarrow> 'p store \<Rightarrow> 'p order option \<times> 'p store" where
  "dataStore_cancelOrder E i reason s =
     (case findIndex (\<lambda>order. order_id order = i) (orders s) of
        None \<Rightarrow> (None, s)
      | Some orderIndex \<Rightarrow>
          (let order = (orders s ! orderIndex)
                 \<lparr>status := ''CANCELLED'',
                  cancelledAt := Some (now E),
                  cancelReason :=
                    Some (if truthy_str reason then the reason else ''No reason provided''),
                  order_updatedAt := now E\<rparr>
           in (Some order, s\<lparr>orders := (orders s)[orderIndex := order]\<rparr>)))"

definition dataStore_updateOrderStatus ::
  "'p env \<Rightarrow> int \<Rightarrow> string \<Rightarrow> 'p store \<Rightarrow> 'p order option \<times> 'p store" where
  "dataStore_updateOrderStatus E i st s =
     (case findIndex (\<lambda>order. order_id order = i) (orders s) of
        None \<Rightarrow> (None, s)
      | Some orderIndex \<Rightarrow>
          (let order = (orders s ! orderIndex)\<lparr>status := st, order_updatedAt := now E\<rparr>
           in (Some order, s\<lparr>orders := (orders s)[orderIndex := order]\<rparr>)))"

subsubsection \<open>Sessions\<close>

definition addSession :: "token \<Rightarrow> 'p store \<Rightarrow> 'p store" where
  "addSession t s = s\<lparr>sessions := insert t (sessions s)\<rparr>"

definition removeSession :: "token \<Rightarrow> 'p store \<Rightarrow> 'p store" where
  "removeSession t s = s\<lparr>sessions := sessions s - {t}\<rparr>"

definition isValidSession :: "'p store \<Rightarrow> token \<Rightarrow> bool" where
  "isValidSession s t = (t \<in> sessions s)"

subsection \<open>Validation\<close>

definition validation_error :: "string \<Rightarrow> string \<Rightarrow> thrown" where
  "validation_error field msg = GraphQLError msg VALIDATION_ERROR (FieldMessage field msg)"

text \<open>
  The class \<open>\s\<close> of a regular expression: the white space and the line terminators of
  the language, that is tab, line feed, vertical tab, form feed, carriage return, space,
  no-break space, \<open>U+1680\<close>, \<open>U+2000\<close> to \<open>U+200A\<close>, the line and the paragraph separator,
  \<open>U+202F\<close>, \<open>U+205F\<close>, \<open>U+3000\<close> and the byte order mark.
\<close>

definition is_space :: "int \<Rightarrow> bool" where
  "is_space u =
     (u \<in> set [0x09, 0x0A, 0x0B, 0x0C, 0x0D, 0x20, 0xA0, 0x1680, 0x2028, 0x2029, 0x202F,
               0x205F, 0x3000, 0xFEFF]
      \<or> (0x2000 \<le> u \<and> u \<le> 0x200A))"

text \<open>
  The test \<open>/^[^\s@]+@[^\s@]+\.[^\s@]+$/\<close> on the code units of the string: a non-empty
  part free of white space and \<open>@\<close> (code unit \<open>0x40\<close>), then \<open>@\<close>, then such a part again
  with a dot (\<open>0x2E\<close>) that is neither its first nor its last code unit.
\<close>

definition plain :: "int list \<Rightarrow> bool" where
  "plain t = (t \<noteq> [] \<and> list_all (\<lambda>u. \<not> is_space u \<and> u \<noteq> 0x40) t)"

definition emailRegex_test :: "string \<Rightarrow> bool" where
  "emailRegex_test e =
     (let units = utf16 e;
          name = takeWhile (\<lambda>u. u \<noteq> 0x40) units
      in plain name \<and>
         (case drop (length name) units of
            [] \<Rightarrow> False
          | _ # host \<Rightarrow> plain host \<and> 0x2E \<in> set (butlast (tl host))))"

definition validateEmail :: "string \<Rightarrow> thrown + unit" where
  "validateEmail e =
     (if \<not> emailRegex_test e
      then Inl (GraphQLError ''Invalid email format'' VALIDATION_ERROR
                  (FieldMessage ''email'' ''Email format is invalid''))
      else Inr ())"

definition validatePassword :: "string \<Rightarrow> thrown + unit" where
  "validatePassword p =
     (if p = [] \<or> length (utf16 p) < 6
      then Inl (validation_error ''password'' ''Password must be at least 6 characters long'')
      else Inr ())"

definition validateUsername :: "string \<Rightarrow> thrown + unit" where
  "validateUsername u =
     (if u = [] \<or> length (utf16 u) < 3
      then Inl (validation_error ''username'' ''Username must be at least 3 characters long'')
      else Inr ())"

definition validatePrice :: "'p env \<Rightarrow> 'p \<Rightarrow> thrown + unit" where
  "validatePrice E p =
     (if le_zero E p
      then Inl (validation_error ''price'' ''Price must be greater than 0'')
      else Inr ())"

text \<open>A quantity is a GraphQL \<open>Int\<close>, so \<open>Number.isInteger\<close> holds of it.\<close>

definition validateQuantity :: "int \<Rightarrow> thrown + unit" where
  "validateQuantity q =
     (if q \<le> 0
      then Inl (validation_error ''quantity'' ''Quantity must be a positive integer'')
      else Inr ())"

definition validStatuses :: "string list" where
  "validStatuses = [''PENDING'', ''CONFIRMED'', ''SHIPPED'', ''DELIVERED'', ''CANCELLED'']"

definition validateOrderStatus :: "string \<Rightarrow> thrown + unit" where
  "validateOrderStatus st =
     (if st \<notin> set validStatuses
      then Inl (validation_error ''status''
             ''Invalid status. Must be: PENDING, CONFIRMED, SHIPPED, DELIVERED, CANCELLED'')
      else Inr ())"

text \<open>
  \<open>validateRequired\<close> rejects \<open>undefined\<close>, \<open>null\<close> and the empty string; the second
  function is its instance at strings.
\<close>

definition validateRequired :: "'a option \<Rightarrow> string \<Rightarrow> thrown + unit" where
  "validateRequired v fieldName =
     (if v = None
      then Inl (validation_error fieldName (fieldName @ '' is required''))
      else Inr ())"

definition validateRequired_string :: "string option \<Rightarrow> string \<Rightarrow> thrown + unit" where
  "validateRequired_string v fieldName =
     (if v = None \<or> v = Some []
      then Inl (validation_error fieldName (fieldName @ '' is required''))
      else Inr ())"

subsection \<open>The authentication guard\<close>

text \<open>
  \<open>generateToken\<close>, \<open>requireAuth\<close> and \<open>requireOwnership\<close> of \<open>utils/auth.js\<close>.  Its
  \<open>verifyToken\<close> is exported and called nowhere (the server verifies the credential in
  \<open>createContext\<close>), so it has no counterpart here.
\<close>

record ctxt =
  ctx_user :: "payload option"
  ctx_token :: "token option"

definition generateToken :: "'p env \<Rightarrow> user \<Rightarrow> token" where
  "generateToken E u =
     jwt_sign (user_id u) (email u) (username u) (JWT_SECRET E) 86400 (now E)"

definition requireAuth :: "ctxt \<Rightarrow> thrown + payload" where
  "requireAuth ctx =
     (case ctx_user ctx of
        None \<Rightarrow> Inl (GraphQLError ''Authentication required'' UNAUTHENTICATED
                       (Text ''You must be logged in to perform this action''))
      | Some u \<Rightarrow> Inr u)"

definition access_denied :: thrown where
  "access_denied =
     GraphQLError ''Access denied'' FORBIDDEN (Text ''You can only access your own resources'')"

definition requireOwnership :: "ctxt \<Rightarrow> int \<Rightarrow> thrown + payload" where
  "requireOwnership ctx resourceUserId =
     (case requireAuth ctx of
        Inl e \<Rightarrow> Inl e
      | Inr u \<Rightarrow> if payload_id u \<noteq> resourceUserId then Inl access_denied else Inr u)"

text \<open>
  \<open>createContext\<close> of the server: the bearer credential of the request, if any and if
  truthy, is verified against the secret; a failure leaves the caller anonymous.
\<close>

definition createContext :: "'p env \<Rightarrow> token option \<Rightarrow> ctxt" where
  "createContext E authorization =
     \<lparr>ctx_user =
        (case authorization of
           None \<Rightarrow> None
         | Some t \<Rightarrow> if t = Opaque [] then None else jwt_verify t (JWT_SECRET E) (now E)),
      ctx_token = authorization\<rparr>"

subsection \<open>Resolvers\<close>

text \<open>
  A resolver runs its guards in the order of the source; a guard that throws ends the
  resolver with the store as it was.
\<close>

definition check ::
  "thrown + 'a \<Rightarrow> 's \<Rightarrow> ('a \<Rightarrow> (thrown + 'r) \<times> 's) \<Rightarrow> (thrown + 'r) \<times> 's" where
  "check guard s k = (case guard of Inl e \<Rightarrow> (Inl e, s) | Inr v \<Rightarrow> k v)"

definition not_found :: "string \<Rightarrow> int \<Rightarrow> thrown" where
  "not_found entity i =
     GraphQLError (entity @ '' not found'') NOT_FOUND
       (WithId (entity @ '' with ID '') i '' does not exist'')"

datatype jsnumber = Finite int | Infinity | NaN

record pagination_info =
  total :: int
  pages :: jsnumber
  currentPage :: int
  hasNextPage :: bool
  hasPreviousPage :: bool

record 'p order_page =
  page_orders :: "'p order list"
  page_pagination :: pagination_info

datatype 'p response =
  UserResult user
  | ListingResult "'p listing option"
  | OrderResult "'p order option"
  | OrdersResult "'p order_page"
  | AuthResult token user
  | CancelResult string "'p order option"
  | Message string

type_synonym 'p outcome = "(thrown + 'p response) \<times> 'p store"

subsubsection \<open>Order queries\<close>

record order_filter =
  flt_userId :: "int option"
  flt_status :: "string option"

record pagination_input =
  page :: int
  limit :: int

text \<open>
  \<open>Math.ceil(total / limit)\<close> for a length \<open>total\<close>: division by zero gives
  \<open>Infinity\<close>, or \<open>NaN\<close> for \<open>0 / 0\<close>; otherwise the quotient of two integers below
  \<open>2^53\<close> is rounded correctly and its ceiling is the ceiling of the exact quotient.
\<close>

definition ceil_div :: "int \<Rightarrow> int \<Rightarrow> jsnumber" where
  "ceil_div n d =
     (if d = 0 then (if n = 0 then NaN else Infinity) else Finite (- ((- n) div d)))"

fun js_less :: "int \<Rightarrow> jsnumber \<Rightarrow> bool" where
  "js_less a (Finite b) = (a < b)"
| "js_less a Infinity = True"
| "js_less a NaN = False"

text \<open>\<open>Array.prototype.slice(start, end)\<close>: a negative index counts from the end.\<close>

definition slice :: "'a list \<Rightarrow> int \<Rightarrow> int \<Rightarrow> 'a list" where
  "slice xs start stop =
     (let len = int (length xs);
          k = (if start < 0 then max (len + start) 0 else min start len);
          final = (if stop < 0 then max (len + stop) 0 else min stop len)
      in take (nat (final - k)) (drop (nat k) xs))"

definition filteredOrders :: "order_filter \<Rightarrow> 'p order list \<Rightarrow> 'p order list" where
  "filteredOrders flt os =
     (let byUser = (if truthy_int (flt_userId flt)
                    then filter (\<lambda>order. Some (order_userId order) = flt_userId flt) os
                    else os)
      in if truthy_str (flt_status flt)
         then filter (\<lambda>order. Some (status order) = flt_status flt) byUser
         else byUser)"

definition getOrders :: "'p store \<Rightarrow> order_filter \<Rightarrow> pagination_input \<Rightarrow> 'p order_page" where
  "getOrders s flt pagination =
     (let filtered = filteredOrders flt (orders s);
          total = int (length filtered);
          pages = ceil_div total (limit pagination);
          offset = (page pagination - 1) * limit pagination;
          paginatedOrders = slice filtered offset (offset + limit pagination)
      in \<lparr>page_orders = paginatedOrders,
          page_pagination =
            \<lparr>total = total, pages = pages, currentPage = page pagination,
             hasNextPage = js_less (page pagination) pages,
             hasPreviousPage = (page pagination > 1)\<rparr>\<rparr>)"

definition Query_order :: "ctxt \<Rightarrow> int \<Rightarrow> 'p store \<Rightarrow> 'p outcome" where
  "Query_order ctx i s =
     check (requireAuth ctx) s (\<lambda>user.
       case getOrderById s i of
         None \<Rightarrow> (Inl (not_found ''Order'' i), s)
       | Some order \<Rightarrow>
           if order_userId order \<noteq> payload_id user
           then (Inl (GraphQLError ''Access denied'' FORBIDDEN
                        (Text ''You can only access your own orders'')), s)
           else (Inr (OrderResult (Some order)), s))"

definition Query_orders ::
  "ctxt \<Rightarrow> order_filter option \<Rightarrow> pagination_input option \<Rightarrow> 'p store \<Rightarrow> 'p outcome" where
  "Query_orders ctx flt pagination s =
     check (requireAuth ctx) s (\<lambda>user.
       let given = (case flt of None \<Rightarrow> None | Some f \<Rightarrow> flt_userId f);
           orderFilter =
             \<lparr>flt_userId = Some (if truthy_int given then the given else payload_id user),
              flt_status = (case flt of None \<Rightarrow> None | Some f \<Rightarrow> flt_status f)\<rparr>
       in if truthy_int given \<and> the given \<noteq> payload_id user
          then (Inl (GraphQLError ''Access denied'' FORBIDDEN
                       (Text ''You can only access your own orders'')), s)
          else (Inr (OrdersResult
                       (getOrders s orderFilter
                          (case pagination of
                             None \<Rightarrow> \<lparr>page = 1, limit = 10\<rparr>
                           | Some p \<Rightarrow> p))), s))"

subsubsection \<open>Order mutations\<close>

text \<open>
  Modelled from the spec: the GraphQL input type \<open>OrderCreateInput\<close> is declared in
  \<open>schema/schema.graphql\<close>, which is not among the sources.  Its fields are the ones
  the resolver reads; an omitted field is \<open>None\<close>.  The input of \<open>updateOrder\<close> is an
  \<open>order_updates\<close>: \<open>const updates = { ...input }\<close> copies every key.
\<close>

record order_create_input =
  oc_listingId :: "int option"
  oc_quantity :: "int option"
  oc_shippingAddress :: "address option"
  oc_buyerNotes :: "string option"

definition Mutation_createOrder ::
  "'p env \<Rightarrow> ctxt \<Rightarrow> order_create_input \<Rightarrow> 'p store \<Rightarrow> 'p outcome" where
  "Mutation_createOrder E ctx input s =
     check (requireAuth ctx) s (\<lambda>user.
     check (validateRequired (oc_listingId input) ''listingId'') s (\<lambda>_.
     check (validateRequired (oc_quantity input) ''quantity'') s (\<lambda>_.
     check (validateRequired (oc_shippingAddress input) ''shippingAddress'') s (\<lambda>_.
     check (validateQuantity (the (oc_quantity input))) s (\<lambda>_.
       case getListingById s (the (oc_listingId input)) of
         None \<Rightarrow> (Inl (not_found ''Listing'' (the (oc_listingId input))), s)
       | Some listing \<Rightarrow>
           (let totalPrice = multiply E (price listing) (the (oc_quantity input))
            in case dataStore_createOrder E
                      \<lparr>data_order_userId = payload_id user,
                       data_listingId = the (oc_listingId input),
                       data_quantity = the (oc_quantity input),
                       data_totalPrice = totalPrice,
                       data_shippingAddress = the (oc_shippingAddress input),
                       data_buyerNotes = oc_buyerNotes input\<rparr> s of
                 (newOrder, s') \<Rightarrow> (Inr (OrderResult (Some newOrder)), s')))))))"

definition Mutation_updateOrder ::
  "'p env \<Rightarrow> ctxt \<Rightarrow> int \<Rightarrow> 'p order_updates \<Rightarrow> 'p store \<Rightarrow> 'p outcome" where
  "Mutation_updateOrder E ctx i input s =
     check (requireAuth ctx) s (\<lambda>user.
       case getOrderById s i of
         None \<Rightarrow> (Inl (not_found ''Order'' i), s)
       | Some existingOrder \<Rightarrow>
           check (requireOwnership ctx (order_userId existingOrder)) s (\<lambda>_.
             case upd_quantity input of
               None \<Rightarrow>
                 (case dataStore_updateOrder E i input s of
                    (updatedOrder, s') \<Rightarrow> (Inr (OrderResult updatedOrder), s'))
             | Some q \<Rightarrow>
                 check (validateQuantity q) s (\<lambda>_.
                   let updates =
                         (case getListingById s (listingId existingOrder) of
                            None \<Rightarrow> input
                          | Some listing \<Rightarrow>
                              input\<lparr>upd_totalPrice := Some (multiply E (price listing) q)\<rparr>)
                   in case dataStore_updateOrder E i updates s of
                        (updatedOrder, s') \<Rightarrow> (Inr (OrderResult updatedOrder), s'))))"

definition Mutation_deleteOrder :: "ctxt \<Rightarrow> int \<Rightarrow> 'p store \<Rightarrow> 'p outcome" where
  "Mutation_deleteOrder ctx i s =
     check (requireAuth ctx) s (\<lambda>user.
       case getOrderById s i of
         None \<Rightarrow> (Inl (not_found ''Order'' i), s)
       | Some existingOrder \<Rightarrow>
           check (requireOwnership ctx (order_userId existingOrder)) s (\<lambda>_.
             case dataStore_deleteOrder i s of
               (deleted, s') \<Rightarrow>
                 if \<not> deleted
                 then (Inl (GraphQLError ''Failed to delete order'' INTERNAL_ERROR
                              (Text ''An error occurred while deleting the order'')), s')
                 else (Inr (Message ''Order deleted successfully''), s')))"

definition Mutation_cancelOrder ::
  "'p env \<Rightarrow> ctxt \<Rightarrow> int \<Rightarrow> string option \<Rightarrow> 'p store \<Rightarrow> 'p outcome" where
  "Mutation_cancelOrder E ctx i reason s =
     check (requireAuth ctx) s (\<lambda>user.
       case getOrderById s i of
         None \<Rightarrow> (Inl (not_found ''Order'' i), s)
       | Some existingOrder \<Rightarrow>
           check (requireOwnership ctx (order_userId existingOrder)) s (\<lambda>_.
             if status existingOrder = ''CANCELLED''
             then (Inl (GraphQLError ''Order is already cancelled'' INVALID_OPERATION
                          (Text ''This order has already been cancelled'')), s)
             else if status existingOrder = ''DELIVERED''
             then (Inl (GraphQLError ''Cannot cancel delivered order'' INVALID_OPERATION
                          (Text ''Delivered orders cannot be cancelled'')), s)
             else (case dataStore_cancelOrder E i reason s of
                     (cancelledOrder, s') \<Rightarrow>
                       (Inr (CancelResult ''Order cancelled successfully'' cancelledOrder),
                        s'))))"

definition Mutation_updateOrderStatus ::
  "'p env \<Rightarrow> ctxt \<Rightarrow> int \<Rightarrow> string \<Rightarrow> 'p store \<Rightarrow> 'p outcome" where
  "Mutation_updateOrderStatus E ctx i st s =
     check (requireAuth ctx) s (\<lambda>user.
       case getOrderById s i of
         None \<Rightarrow> (Inl (not_found ''Order'' i), s)
       | Some existingOrder \<Rightarrow>
           check (requireOwnership ctx (order_userId existingOrder)) s (\<lambda>_.
           check (validateOrderStatus st) s (\<lambda>_.
             case dataStore_updateOrderStatus E i st s of
               (updatedOrder, s') \<Rightarrow> (Inr (OrderResult updatedOrder), s'))))"

subsubsection \<open>Listings\<close>

text \<open>
  Modelled from the spec: the GraphQL input type \<open>ListingCreateInput\<close> is declared in
  \<open>schema/schema.graphql\<close>, which is not among the sources; its fields are the ones the
  resolver reads.  An upload is kept as its name: the resolver only counts the uploads.
\<close>

record 'p listing_create_input =
  lc_title :: "string option"
  lc_description :: "string option"
  lc_price :: "'p option"
  lc_category :: "string option"
  lc_condition :: "string option"
  lc_location :: "string option"
  lc_images :: "string list option"

definition Query_listing :: "int \<Rightarrow> 'p store \<Rightarrow> 'p outcome" where
  "Query_listing i s =
     (case getListingById s i of
        None \<Rightarrow> (Inl (not_found ''Listing'' i), s)
      | Some listing \<Rightarrow> (Inr (ListingResult (Some listing)), s))"

definition Mutation_createListing ::
  "'p env \<Rightarrow> ctxt \<Rightarrow> 'p listing_create_input \<Rightarrow> 'p store \<Rightarrow> 'p outcome" where
  "Mutation_createListing E ctx input s =
     check (requireAuth ctx) s (\<lambda>user.
     check (validateRequired_string (lc_title input) ''title'') s (\<lambda>_.
     check (validateRequired_string (lc_description input) ''description'') s (\<lambda>_.
     check (validateRequired (lc_price input) ''price'') s (\<lambda>_.
     check (validatePrice E (the (lc_price input))) s (\<lambda>_.
       let imageUrls =
             (case lc_images input of
                None \<Rightarrow> []
              | Some imgs \<Rightarrow> map (Placeholder (now E)) [0..<length imgs])
       in case dataStore_createListing E
                 \<lparr>data_title = the (lc_title input),
                  data_description = the (lc_description input),
                  data_price = the (lc_price input),
                  data_category = lc_category input,
                  data_condition = lc_condition input,
                  data_location = lc_location input,
                  data_images = imageUrls,
                  data_userId = payload_id user\<rparr> s of
            (newListing, s') \<Rightarrow> (Inr (ListingResult (Some newListing)), s'))))))"

definition Mutation_updateListing ::
  "'p env \<Rightarrow> ctxt \<Rightarrow> int \<Rightarrow> 'p listing_updates \<Rightarrow> 'p store \<Rightarrow> 'p outcome" where
  "Mutation_updateListing E ctx i input s =
     check (requireAuth ctx) s (\<lambda>user.
       case getListingById s i of
         None \<Rightarrow> (Inl (not_found ''Listing'' i), s)
       | Some existingListing \<Rightarrow>
           check (requireOwnership ctx (listing_userId existingListing)) s (\<lambda>_.
           check (case upd_price input of None \<Rightarrow> Inr () | Some p \<Rightarrow> validatePrice E p) s (\<lambda>_.
             case dataStore_updateListing E i input s of
               (updatedListing, s') \<Rightarrow> (Inr (ListingResult updatedListing), s'))))"

definition Mutation_deleteListing :: "ctxt \<Rightarrow> int \<Rightarrow> 'p store \<Rightarrow> 'p outcome" where
  "Mutation_deleteListing ctx i s =
     check (requireAuth ctx) s (\<lambda>user.
       case getListingById s i of
         None \<Rightarrow> (Inl (not_found ''Listing'' i), s)
       | Some existingListing \<Rightarrow>
           check (requireOwnership ctx (listing_userId existingListing)) s (\<lambda>_.
             case dataStore_deleteListing i s of
               (deleted, s') \<Rightarrow>
                 if \<not> deleted
                 then (Inl (GraphQLError ''Failed to delete listing'' INTERNAL_ERROR
                              (Text ''An error occurred while deleting the listing'')), s')
                 else (Inr (Message ''Listing deleted successfully''), s')))"

subsubsection \<open>Users\<close>

text \<open>\<open>const { password, ...userWithoutPassword } = user\<close>.\<close>

definition userWithoutPassword :: "user \<Rightarrow> user" where
  "userWithoutPassword u = u\<lparr>password := None\<rparr>"

text \<open>
  Modelled from the spec: the GraphQL input types \<open>UserCreateInput\<close>, \<open>UserUpdateInput\<close>
  and \<open>UserLoginInput\<close> are declared in \<open>schema/schema.graphql\<close>, which is not among the
  sources; their fields are the ones the resolvers read.  \<open>UserUpdateInput\<close> is the
  record \<open>user_updates\<close>.
\<close>

record user_create_input =
  uc_username :: "string option"
  uc_email :: "string option"
  uc_password :: "string option"

record login_input =
  li_email :: "string option"
  li_password :: "string option"

definition email_conflict :: thrown where
  "email_conflict =
     GraphQLError ''Email already exists'' CONFLICT
       (FieldMessage ''email'' ''A user with this email already exists'')"

definition Query_user :: "int \<Rightarrow> 'p store \<Rightarrow> 'p outcome" where
  "Query_user i s =
     (case getUserById s i of
        None \<Rightarrow> (Inl (not_found ''User'' i), s)
      | Some u \<Rightarrow> (Inr (UserResult (userWithoutPassword u)), s))"

definition Mutation_createUser :: "'p env \<Rightarrow> user_create_input \<Rightarrow> 'p store \<Rightarrow> 'p outcome" where
  "Mutation_createUser E input s =
     check (validateRequired_string (uc_username input) ''username'') s (\<lambda>_.
     check (validateRequired_string (uc_email input) ''email'') s (\<lambda>_.
     check (validateRequired_string (uc_password input) ''password'') s (\<lambda>_.
     check (validateUsername (the (uc_username input))) s (\<lambda>_.
     check (validateEmail (the (uc_email input))) s (\<lambda>_.
     check (validatePassword (the (uc_password input))) s (\<lambda>_.
       case getUserByEmail s (the (uc_email input)) of
         Some existingUser \<Rightarrow> (Inl email_conflict, s)
       | None \<Rightarrow>
           (let hashedPassword = bcrypt_hash E (the (uc_password input))
            in case dataStore_createUser E
                      \<lparr>data_username = the (uc_username input),
                       data_email = the (uc_email input),
                       data_password = hashedPassword\<rparr> s of
                 (newUser, s') \<Rightarrow> (Inr (UserResult (userWithoutPassword newUser)), s'))))))))"

definition Mutation_updateUser ::
  "'p env \<Rightarrow> ctxt \<Rightarrow> int \<Rightarrow> user_updates \<Rightarrow> 'p store \<Rightarrow> 'p outcome" where
  "Mutation_updateUser E ctx i input s =
     check (requireOwnership ctx i) s (\<lambda>_.
       case getUserById s i of
         None \<Rightarrow> (Inl (not_found ''User'' i), s)
       | Some existingUser \<Rightarrow>
           check (if truthy_str (upd_username input)
                  then validateUsername (the (upd_username input)) else Inr ()) s (\<lambda>_.
           check (if truthy_str (upd_email input)
                  then (case validateEmail (the (upd_email input)) of
                          Inl e \<Rightarrow> Inl e
                        | Inr _ \<Rightarrow>
                            (case getUserByEmail s (the (upd_email input)) of
                               None \<Rightarrow> Inr ()
                             | Some existingEmailUser \<Rightarrow>
                                 if user_id existingEmailUser \<noteq> i
                                 then Inl email_conflict else Inr ()))
                  else Inr ()) s (\<lambda>_.
           check (if truthy_str (upd_password input)
                  then validatePassword (the (upd_password input)) else Inr ()) s (\<lambda>_.
             let updates =
                   (if truthy_str (upd_password input)
                    then input\<lparr>upd_password :=
                                 Some (bcrypt_hash E (the (upd_password input)))\<rparr>
                    else input)
             in case dataStore_updateUser E i updates s of
                  (None, s') \<Rightarrow> (Inl TypeError, s')
                | (Some updatedUser, s') \<Rightarrow>
                    (Inr (UserResult (userWithoutPassword updatedUser)), s')))))"

definition Mutation_deleteUser :: "ctxt \<Rightarrow> int \<Rightarrow> 'p store \<Rightarrow> 'p outcome" where
  "Mutation_deleteUser ctx i s =
     check (requireOwnership ctx i) s (\<lambda>_.
       case getUserById s i of
         None \<Rightarrow> (Inl (not_found ''User'' i), s)
       | Some existingUser \<Rightarrow>
           (case dataStore_deleteUser i s of
              (deleted, s') \<Rightarrow>
                if \<not> deleted
                then (Inl (GraphQLError ''Failed to delete user'' INTERNAL_ERROR
                             (Text ''An error occurred while deleting the user'')), s')
                else (Inr (Message ''User deleted successfully''), s')))"

subsubsection \<open>Login and logout\<close>

definition invalid_credentials :: thrown where
  "invalid_credentials =
     GraphQLError ''Invalid credentials'' AUTHENTICATION_ERROR
       (Text ''Invalid email or password'')"

text \<open>
  \<open>bcrypt.compare\<close> rejects a hash that is not a string with an \<open>Error\<close>; the resolver
  does not catch it.
\<close>

definition Mutation_login :: "'p env \<Rightarrow> login_input \<Rightarrow> 'p store \<Rightarrow> 'p outcome" where
  "Mutation_login E input s =
     check (validateRequired_string (li_email input) ''email'') s (\<lambda>_.
     check (validateRequired_string (li_password input) ''password'') s (\<lambda>_.
     check (validateEmail (the (li_email input))) s (\<lambda>_.
       case getUserByEmail s (the (li_email input)) of
         None \<Rightarrow> (Inl invalid_credentials, s)
       | Some u \<Rightarrow>
           (case password u of
              None \<Rightarrow> (Inl (Error ''Illegal arguments: string, undefined''), s)
            | Some hashed \<Rightarrow>
                if \<not> bcrypt_compare E (the (li_password input)) hashed
                then (Inl invalid_credentials, s)
                else (let t = generateToken E u
                      in (Inr (AuthResult t (userWithoutPassword u)), addSession t s))))))"

definition Mutation_logout :: "ctxt \<Rightarrow> 'p store \<Rightarrow> 'p outcome" where
  "Mutation_logout ctx s =
     check (requireAuth ctx) s (\<lambda>_.
       (Inr (Message ''Logout successful''),
        (case ctx_token ctx of
           None \<Rightarrow> s
         | Some t \<Rightarrow> if t = Opaque [] then s else removeSession t s)))"

subsubsection \<open>Nested fields\<close>

definition Listing_user :: "'p store \<Rightarrow> 'p listing \<Rightarrow> user option" where
  "Listing_user s parent =
     (case getUserById s (listing_userId parent) of
        Some u \<Rightarrow> Some (userWithoutPassword u)
      | None \<Rightarrow> None)"

definition Order_user :: "'p store \<Rightarrow> 'p order \<Rightarrow> user option" where
  "Order_user s parent =
     (case getUserById s (order_userId parent) of
        Some u \<Rightarrow> Some (userWithoutPassword u)
      | None \<Rightarrow> None)"

definition Order_listing :: "'p store \<Rightarrow> 'p order \<Rightarrow> 'p listing option" where
  "Order_listing s parent = getListingById s (listingId parent)"

subsection \<open>The store at start-up\<close>

text \<open>
  The constructor of \<open>DataStore\<close> with \<open>initializeSampleData\<close>.  The number literals
  \<open>999.99\<close> and \<open>450.00\<close> and the time of construction are parameters.
\<close>

definition sample_hash :: string where
  "sample_hash = ''$2a$10$92IXUNpkjO0rOQ5byMi.Ye4oKoEa3Ro9llC/.og/at2.uheWG/igi''"

definition john :: user where
  "john = \<lparr>user_id = 1, username = ''john_doe'', email = ''john@example.com'',
           password = Some sample_hash, user_createdAt = None, user_updatedAt = None\<rparr>"

definition jane :: user where
  "jane = \<lparr>user_id = 2, username = ''jane_smith'', email = ''jane@example.com'',
           password = Some sample_hash, user_createdAt = None, user_updatedAt = None\<rparr>"

definition sample_order :: "'p \<Rightarrow> nat \<Rightarrow> 'p order" where
  "sample_order p t =
     \<lparr>order_id = 1, order_userId = 2, listingId = 1, quantity = 1, totalPrice = p,
      status = ''PENDING'',
      shippingAddress = \<lparr>street = ''123 Main St'', city = ''New York'', state = ''NY'',
                         zipCode = ''10001'', country = ''USA''\<rparr>,
      buyerNotes = Some ''Please deliver after 5 PM'',
      cancelReason = None, cancelledAt = None,
      order_createdAt = t, order_updatedAt = t\<rparr>"

definition iphone :: "'p \<Rightarrow> nat \<Rightarrow> 'p listing" where
  "iphone p t =
     \<lparr>listing_id = 1, title = ''iPhone 13 Pro Max'',
      description = ''Brand new, still in box'', price = p,
      category = Some ''electronics'', condition = Some ''NEW'',
      location = Some ''New York, NY'',
      images = [File ''iphone1.jpg'', File ''iphone2.jpg''],
      listing_userId = 1, listing_createdAt = t, listing_updatedAt = t\<rparr>"

definition guitar :: "'p \<Rightarrow> nat \<Rightarrow> 'p listing" where
  "guitar p t =
     \<lparr>listing_id = 2, title = ''Vintage Guitar'',
      description = ''Classic acoustic guitar in excellent condition'', price = p,
      category = Some ''music'', condition = Some ''GOOD'',
      location = Some ''Los Angeles, CA'',
      images = [File ''guitar1.jpg''],
      listing_userId = 2, listing_createdAt = t, listing_updatedAt = t\<rparr>"

definition DataStore_constructor :: "'p \<Rightarrow> 'p \<Rightarrow> nat \<Rightarrow> 'p store" where
  "DataStore_constructor p1 p2 t =
     \<lparr>users = [john, jane],
      listings = [iphone p1 t, guitar p2 t],
      orders = [sample_order p1 t],
      sessions = {},
      nextUserId = 3, nextListingId = 3, nextOrderId = 2\<rparr>"

subsection \<open>The server\<close>

text \<open>
  The operations of the schema that the resolver map of \<open>server.js\<close> dispatches on (the
  listing search and the subscription stubs are left out), and the handling of one
  request: the context is built from the request's bearer credential, then the resolver
  runs on the store.
\<close>

datatype 'p operation =
  QueryUser int
  | QueryListing int
  | QueryOrder int
  | QueryOrders "order_filter option" "pagination_input option"
  | CreateUser user_create_input
  | Login login_input
  | Logout
  | UpdateUser int user_updates
  | DeleteUser int
  | CreateListing "'p listing_create_input"
  | UpdateListing int "'p listing_updates"
  | DeleteListing int
  | CreateOrder order_create_input
  | UpdateOrder int "'p order_updates"
  | DeleteOrder int
  | CancelOrder int "string option"
  | UpdateOrderStatus int string

fun resolvers :: "'p env \<Rightarrow> ctxt \<Rightarrow> 'p operation \<Rightarrow> 'p store \<Rightarrow> 'p outcome" where
  "resolvers E ctx (QueryUser i) s = Query_user i s"
| "resolvers E ctx (QueryListing i) s = Query_listing i s"
| "resolvers E ctx (QueryOrder i) s = Query_order ctx i s"
| "resolvers E ctx (QueryOrders flt pagination) s = Query_orders ctx flt pagination s"
| "resolvers E ctx (CreateUser input) s = Mutation_createUser E input s"
| "resolvers E ctx (Login input) s = Mutation_login E input s"
| "resolvers E ctx Logout s = Mutation_logout ctx s"
| "resolvers E ctx (UpdateUser i input) s = Mutation_updateUser E ctx i input s"
| "resolvers E ctx (DeleteUser i) s = Mutation_deleteUser ctx i s"
| "resolvers E ctx (CreateListing input) s = Mutation_createListing E ctx input s"
| "resolvers E ctx (UpdateListing i input) s = Mutation_updateListing E ctx i input s"
| "resolvers E ctx (DeleteListing i) s = Mutation_deleteListing ctx i s"
| "resolvers E ctx (CreateOrder input) s = Mutation_createOrder E ctx input s"
| "resolvers E ctx (UpdateOrder i input) s = Mutation_updateOrder E ctx i input s"
| "resolvers E ctx (DeleteOrder i) s = Mutation_deleteOrder ctx i s"
| "resolvers E ctx (CancelOrder i reason) s = Mutation_cancelOrder E ctx i reason s"
| "resolvers E ctx (UpdateOrderStatus i st) s = Mutation_updateOrderStatus E ctx i st s"

definition serve :: "'p env \<Rightarrow> token option \<Rightarrow> 'p operation \<Rightarrow> 'p store \<Rightarrow> 'p outcome" where
  "serve E authorization op s = resolvers E (createContext E authorization) op s"




text \<open>Two outcomes with the same result and with stores that differ at most in the session set.\<close>

definition same_data :: "'p outcome \<Rightarrow> 'p outcome \<Rightarrow> bool" where
  "same_data a b = (fst a = fst b \<and> (snd a)\<lparr>sessions := {}\<rparr> = (snd b)\<lparr>sessions := {}\<rparr>)"


subsection \<open>Example requests\<close>

text \<open>
  The number literals of the examples as doubles: \<open>999.99\<close> is the double nearest to
  \<open>99999 / 100\<close>, and \<open>450\<close>, \<open>500\<close>, \<open>1350\<close> and \<open>1500\<close> are doubles themselves.
\<close>

definition d999_99 :: number where
  "d999_99 = Double 8796005061277778 (- 43)"

definition d450 :: number where
  "d450 = Double 7916483719987200 (- 44)"

definition d500 :: number where
  "d500 = Double 8796093022208000 (- 44)"

definition d1350 :: number where
  "d1350 = Double 5937362789990400 (- 42)"

definition d1500 :: number where
  "d1500 = Double 6597069766656000 (- 42)"

text \<open>
  An environment for the examples: the arithmetic of JavaScript numbers, the secret
  that is the default of the source, and for \<open>bcrypt\<close> a stand-in that accepts the
  password the source names for the sample hash.
\<close>

definition demo_env :: "number env" where
  "demo_env =
     \<lparr>now = 1700000000000, JWT_SECRET = ''your-secret-key'',
      bcrypt_hash = (\<lambda>p. ''hash:'' @ p),
      bcrypt_compare = (\<lambda>p h. h = ''hash:'' @ p \<or> (p = ''password'' \<and> h = sample_hash)),
      multiply = js_multiply,
      le_zero = js_le_zero\<rparr>"

definition sample_store :: "number store" where
  "sample_store = DataStore_constructor d999_99 d450 1699999999000"

definition john_claims :: payload where
  "john_claims = \<lparr>payload_id = 1, payload_email = ''john@example.com'',
                   payload_username = ''john_doe'',
                   payload_iat = 1700000000, payload_exp = 1700086400\<rparr>"

definition jane_claims :: payload where
  "jane_claims = \<lparr>payload_id = 2, payload_email = ''jane@example.com'',
                   payload_username = ''jane_smith'',
                   payload_iat = 1700000000, payload_exp = 1700086400\<rparr>"

definition john_ctx :: ctxt where
  "john_ctx = createContext demo_env (Some (generateToken demo_env john))"

definition jane_ctx :: ctxt where
  "jane_ctx = createContext demo_env (Some (generateToken demo_env jane))"

text \<open>The update inputs without any key.\<close>

definition no_listing_updates :: "number listing_updates" where
  "no_listing_updates =
     \<lparr>upd_listing_id = None, upd_title = None, upd_description = None, upd_price = None,
      upd_category = None, upd_condition = None, upd_location = None, upd_images = None,
      upd_listing_userId = None, upd_listing_createdAt = None\<rparr>"

definition no_order_updates :: "number order_updates" where
  "no_order_updates =
     \<lparr>upd_order_id = None, upd_order_userId = None, upd_listingId = None,
      upd_quantity = None, upd_totalPrice = None, upd_status = None,
      upd_shippingAddress = None, upd_buyerNotes = None, upd_cancelReason = None,
      upd_cancelledAt = None, upd_order_createdAt = None\<rparr>"

definition no_user_updates :: user_updates where
  "no_user_updates =
     \<lparr>upd_user_id = None, upd_username = None, upd_email = None, upd_password = None,
      upd_user_createdAt = None\<rparr>"

text \<open>The order a resolver returned, if it returned one.\<close>

fun result_order :: "'p outcome \<Rightarrow> 'p order option" where
  "result_order (Inr (OrderResult ord), s) = ord"
| "result_order (Inr (CancelResult m ord), s) = ord"
| "result_order other = None"

text \<open>The sample store after John has deleted his listing 1, which order 1 refers to.\<close>

definition orphan_store :: "number store" where
  "orphan_store = snd (Mutation_deleteListing john_ctx 1 sample_store)"

text \<open>The sample store after Jane has cancelled her order 1.\<close>

definition cancelled_store :: "number store" where
  "cancelled_store = snd (Mutation_cancelOrder demo_env jane_ctx 1 None sample_store)"

text \<open>The sample store after Jane has deleted her own account.\<close>

definition jane_gone_store :: "number store" where
  "jane_gone_store = snd (Mutation_deleteUser jane_ctx 2 sample_store)"

text \<open>
  Three \<open>createOrder\<close> inputs: three guitars, three of a listing that does not exist,
  and three telephones.
\<close>

definition guitar_order :: order_create_input where
  "guitar_order = \<lparr>oc_listingId = Some 2, oc_quantity = Some 3,
     oc_shippingAddress = Some \<lparr>street = ''789 Test Ave'', city = ''Test City'', state = ''TS'',
                         zipCode = ''12345'', country = ''USA''\<rparr>,
     oc_buyerNotes = None\<rparr>"

definition missing_order :: order_create_input where
  "missing_order = guitar_order\<lparr>oc_listingId := Some 9\<rparr>"

definition iphone_order :: order_create_input where
  "iphone_order = guitar_order\<lparr>oc_listingId := Some 1\<rparr>"

text \<open>The sample store after Jane has set her order 1 to \<open>DELIVERED\<close>.\<close>

definition delivered_store :: "number store" where
  "delivered_store =
     snd (Mutation_updateOrderStatus demo_env jane_ctx 1 ''DELIVERED'' sample_store)"

text \<open>The sample store after John has changed the price of his listing 1 to 500.\<close>

definition repriced_store :: "number store" where
  "repriced_store =
     snd (Mutation_updateListing demo_env john_ctx 1
            (no_listing_updates\<lparr>upd_price := Some d500\<rparr>) sample_store)"

text \<open>Two \<open>updateOrder\<close> inputs: a quantity of three, and the status \<open>PENDING\<close>.\<close>

definition quantity_three :: "number order_updates" where
  "quantity_three = no_order_updates\<lparr>upd_quantity := Some 3\<rparr>"


text \<open>A store in which Jane has three orders (1, 2 and 4) and John has one (3).\<close>

definition busy_store :: "number store" where
  "busy_store =
     sample_store
       \<lparr>orders :=
          [sample_order d450 0,
           (sample_order d450 0)\<lparr>order_id := 2\<rparr>,
           (sample_order d450 0)\<lparr>order_id := 3, order_userId := 1\<rparr>,
           (sample_order d450 0)\<lparr>order_id := 4\<rparr>],
        nextOrderId := 5\<rparr>"

text \<open>Inputs of the user operations: a registration, Jane's login, and a new user name.\<close>

definition new_user_input :: user_create_input where
  "new_user_input =
     \<lparr>uc_username = Some ''testuser123'', uc_email = Some ''testuser123@example.com'',
      uc_password = Some ''password123''\<rparr>"

definition jane_login :: login_input where
  "jane_login = \<lparr>li_email = Some ''jane@example.com'', li_password = Some ''password''\<rparr>"

definition rename_input :: user_updates where
  "rename_input = no_user_updates\<lparr>upd_username := Some ''jane_s''\<rparr>"

text \<open>
  Login attempts: an unknown address, a wrong password, no password, no address, and an
  address with a no-break space (\<open>a\u00a0b@c.d\<close> in the notation of the language).
\<close>

definition unknown_login :: login_input where
  "unknown_login = \<lparr>li_email = Some ''nobody@example.com'', li_password = Some ''password''\<rparr>"

definition wrong_password_login :: login_input where
  "wrong_password_login =
     \<lparr>li_email = Some ''jane@example.com'', li_password = Some ''wrongpassword''\<rparr>"

definition empty_password_login :: login_input where
  "empty_password_login = \<lparr>li_email = Some ''jane@example.com'', li_password = Some []\<rparr>"

definition malformed_login :: login_input where
  "malformed_login = \<lparr>li_email = Some ''nobody'', li_password = Some ''password''\<rparr>"

definition nbsp_address :: string where
  "nbsp_address =
     [CHR ''a'', CHR 0xC2, CHR 0xA0, CHR ''b'', CHR ''@'', CHR ''c'', CHR ''.'', CHR ''d'']"

definition nbsp_login :: login_input where
  "nbsp_login = \<lparr>li_email = Some nbsp_address, li_password = Some ''password''\<rparr>"

text \<open>The clock one hour and twenty-four hours after \<open>demo_env\<close>.\<close>

definition later_env :: "number env" where
  "later_env = demo_env\<lparr>now := 1700003600000\<rparr>"

definition expired_env :: "number env" where
  "expired_env = demo_env\<lparr>now := 1700086400000\<rparr>"

definition jane_token :: token where
  "jane_token = generateToken demo_env jane"

text \<open>Jane logs in and, an hour later, logs out.\<close>

definition logged_in_store :: "number store" where
  "logged_in_store = snd (serve demo_env None (Login jane_login) sample_store)"

definition logged_out_store :: "number store" where
  "logged_out_store = snd (serve later_env (Some jane_token) Logout logged_in_store)"

section \<open>Properties\<close>

subsection \<open>Auxiliary facts\<close>

lemma findIndex_None_iff: "findIndex P xs = None \<longleftrightarrow> find P xs = None"
  by (induction xs) auto

lemma findIndex_Some:
  "findIndex P xs = Some i \<Longrightarrow> i < length xs \<and> find P xs = Some (xs ! i)"
  by (induction xs arbitrary: i) (auto split: if_splits)

lemma find_Some_findIndex:
  "find P xs = Some x \<Longrightarrow> \<exists>i. findIndex P xs = Some i \<and> i < length xs \<and> xs ! i = x"
  by (induction xs) (auto split: if_splits)

lemma find_update_first:
  "findIndex P xs = Some k \<Longrightarrow> P y \<Longrightarrow> find P (xs[k := y]) = Some y"
  by (induction xs arbitrary: k) (auto split: if_splits)

lemma find_update_other:
  "k < length xs \<Longrightarrow> \<not> Q (xs ! k) \<Longrightarrow> \<not> Q y \<Longrightarrow>
   find Q (xs[k := y]) = find Q xs"
  by (induction xs arbitrary: k) (auto split: nat.splits)

lemma check_Inl [simp]: "check (Inl e) s k = (Inl e, s)"
  by (simp add: check_def)

lemma check_Inr [simp]: "check (Inr v) s k = k v"
  by (simp add: check_def)

lemma requireAuth_Some: "ctx_user ctx = Some u \<Longrightarrow> requireAuth ctx = Inr u"
  by (simp add: requireAuth_def)

lemma requireOwnership_Some:
  "ctx_user ctx = Some u \<Longrightarrow>
   requireOwnership ctx r = (if payload_id u \<noteq> r then Inl access_denied else Inr u)"
  by (simp add: requireOwnership_def requireAuth_def)

text \<open>
  A product is not rounded when the mantissa of the price without \<open>k\<close> of its trailing
  zero bits, multiplied by the quantity, has at most 53 bits.
\<close>

lemma bit_length_bounds:
  "0 < n \<Longrightarrow> 0 < bit_length n \<and> 2 ^ nat (bit_length n - 1) \<le> n \<and> n < 2 ^ nat (bit_length n)"
proof (induction n rule: bit_length.induct)
  case (1 n)
  show ?case
  proof (cases "n = 1")
    case True
    have "bit_length 1 = 1"
      by (simp add: bit_length.simps [of 1] bit_length.simps [of 0])
    with True show ?thesis by simp
  next
    case False
    with 1 have h: "0 < n div 2" by simp
    from 1 have n: "\<not> n \<le> 0" by simp
    from 1(1) [OF n h] have ih: "0 < bit_length (n div 2)"
      "2 ^ nat (bit_length (n div 2) - 1) \<le> n div 2"
      "n div 2 < 2 ^ nat (bit_length (n div 2))" by simp_all
    have bl: "bit_length n = 1 + bit_length (n div 2)"
      using n by (simp add: bit_length.simps [of n])
    define k where "k = nat (bit_length (n div 2) - 1)"
    from ih(1) have e1: "nat (bit_length (n div 2)) = Suc k"
      by (simp add: k_def)
    from ih(1) have e2: "nat (1 + bit_length (n div 2)) = Suc (Suc k)"
      by (simp add: k_def)
    have e3: "1 + bit_length (n div 2) - 1 = bit_length (n div 2)"
      by simp
    from ih(2) have "2 * 2 ^ k \<le> n" unfolding k_def by linarith
    moreover from ih(3) have "n < 2 * (2 * 2 ^ k)" unfolding e1 by simp
    ultimately show ?thesis
      using ih(1) unfolding bl e3 e1 e2 by simp
  qed
qed

lemma bit_length_le:
  assumes "0 < n" and "n < 2 ^ k"
  shows "bit_length n \<le> int k"
proof (rule ccontr)
  assume "\<not> bit_length n \<le> int k"
  then have "k \<le> nat (bit_length n - 1)" by simp
  then have "(2::int) ^ k \<le> 2 ^ nat (bit_length n - 1)"
    by (simp add: power_increasing)
  with bit_length_bounds [OF assms(1)] assms(2) show False by simp
qed

lemma round_to_double_exact:
  assumes "\<bar>M\<bar> < 2 ^ 53" and "- 1074 \<le> E" and "E \<le> 971"
  shows "\<exists>m e. round_to_double M E = Double m e
               \<and> (of_int m :: rat) * power_int 2 e = of_int M * power_int 2 E"
proof (cases "M = 0")
  case True
  then show ?thesis by (simp add: round_to_double_def)
next
  case False
  then have pos: "0 < \<bar>M\<bar>" by simp
  define b where "b = bit_length \<bar>M\<bar>"
  define e where "e = max (E + b - 53) (- 1074)"
  from bit_length_le [OF pos, of 53] assms(1) have b53: "b \<le> 53" by (simp add: b_def)
  from bit_length_bounds [OF pos] have bpos: "0 < b" and up: "\<bar>M\<bar> < 2 ^ nat b"
    by (simp_all add: b_def)
  from b53 assms(2) have eE: "e \<le> E" by (simp add: e_def)
  have e971: "e \<le> 971" using eE assms(3) by simp
  define m where "m = \<bar>M\<bar> * 2 ^ nat (E - e)"
  have "nat (E - e) \<le> nat (53 - b)"
    by (simp add: e_def)
  then have "(2::int) ^ nat (E - e) \<le> 2 ^ nat (53 - b)"
    by (simp add: power_increasing)
  then have "m \<le> \<bar>M\<bar> * 2 ^ nat (53 - b)"
    by (simp add: m_def mult_left_mono)
  also from up have "\<dots> < 2 ^ nat b * 2 ^ nat (53 - b)"
    by (simp add: mult_strict_right_mono)
  also have "\<dots> = 2 ^ 53"
  proof -
    have "nat b + nat (53 - b) = 53" using bpos b53 by simp
    then show ?thesis by (simp add: power_add [symmetric])
  qed
  finally have m53: "m < 2 ^ 53" .
  have run: "round_to_double M E = Double (sgn M * m) e"
    using False eE e971 m53
    by (simp add: round_to_double_def Let_def b_def [symmetric] e_def [symmetric]
        m_def [symmetric])
  have "(of_int (sgn M * m) :: rat) * power_int 2 e
      = of_int M * (2 ^ nat (E - e) * power_int 2 e)"
    by (simp add: m_def mult.assoc [symmetric] mult_sgn_abs)
  also have "(2 ^ nat (E - e) * power_int 2 e :: rat) = power_int 2 E"
  proof -
    have "(2::rat) ^ nat (E - e) = power_int 2 (E - e)"
      using eE by (simp add: power_int_def)
    then show ?thesis
      by (simp add: power_int_add [symmetric])
  qed
  finally show ?thesis
    using run by blast
qed


lemma bit_length_double: "0 < n \<Longrightarrow> bit_length (2 * n) = 1 + bit_length n"
  by (subst bit_length.simps) simp

lemma bit_length_shift: "0 < n \<Longrightarrow> bit_length (n * 2 ^ k) = bit_length n + int k"
proof (induction k)
  case 0
  then show ?case by simp
next
  case (Suc k)
  from Suc.prems have "0 < n * 2 ^ k" by simp
  from bit_length_double [OF this] Suc show ?case
    by (simp add: mult.commute mult.left_commute)
qed

lemma round_half_even_multiple: "0 < d \<Longrightarrow> round_half_even (a * d) d = a"
  by (simp add: round_half_even_def Let_def)

lemma round_half_even_cancel:
  assumes "0 < c" and "0 < d"
  shows "round_half_even (a * c) (d * c) = round_half_even a d"
proof -
  have dv: "(a * c) div (d * c) = a div d"
    using assms by simp
  have md: "(a * c) mod (d * c) = (a mod d) * c"
    by (rule mod_mult_mult2)
  have lt: "2 * ((a * c) mod (d * c)) < d * c \<longleftrightarrow> 2 * (a mod d) < d"
  proof -
    have "2 * ((a mod d) * c) = (2 * (a mod d)) * c" by simp
    then show ?thesis
      unfolding md using assms(1) by (simp only: mult_less_cancel_right_pos)
  qed
  have gt: "d * c < 2 * ((a * c) mod (d * c)) \<longleftrightarrow> d < 2 * (a mod d)"
  proof -
    have "2 * ((a mod d) * c) = (2 * (a mod d)) * c" by simp
    then show ?thesis
      unfolding md using assms(1) by (simp only: mult_less_cancel_right_pos)
  qed
  show ?thesis
    by (simp only: round_half_even_def Let_def dv lt gt)
qed

lemma round_to_double_shift:
  "round_to_double (M * 2 ^ k) E = round_to_double M (E + int k)"
proof (cases "M = 0")
  case True
  then show ?thesis by (simp add: round_to_double_def)
next
  case False
  then have pos: "0 < \<bar>M\<bar>" by simp
  have abs: "\<bar>M * 2 ^ k\<bar> = \<bar>M\<bar> * 2 ^ k"
    by (simp add: abs_mult)
  have bl: "bit_length (\<bar>M\<bar> * 2 ^ k) = bit_length \<bar>M\<bar> + int k"
    by (rule bit_length_shift [OF pos])
  define e where "e = max (E + int k + bit_length \<bar>M\<bar> - 53) (- 1074)"
  have e: "max (E + (bit_length \<bar>M\<bar> + int k) - 53) (- 1074) = e"
    by (simp add: e_def add.commute add.left_commute)
  have m: "(if e \<le> E then \<bar>M\<bar> * 2 ^ k * 2 ^ nat (E - e)
            else round_half_even (\<bar>M\<bar> * 2 ^ k) (2 ^ nat (e - E)))
         = (if e \<le> E + int k then \<bar>M\<bar> * 2 ^ nat (E + int k - e)
            else round_half_even \<bar>M\<bar> (2 ^ nat (e - (E + int k))))"
  proof -
    consider "e \<le> E" | "E < e" "e \<le> E + int k" | "E + int k < e" by linarith
    then show ?thesis
    proof cases
      case 1
      then have "nat (E + int k - e) = k + nat (E - e)" by simp
      with 1 show ?thesis by (simp add: power_add mult.assoc)
    next
      case 2
      define j where "j = nat (E + int k - e)"
      from 2 have k: "k = j + nat (e - E)" by (simp add: j_def)
      have "round_half_even (\<bar>M\<bar> * 2 ^ k) (2 ^ nat (e - E)) = \<bar>M\<bar> * 2 ^ j"
        using round_half_even_multiple [of "2 ^ nat (e - E)" "\<bar>M\<bar> * 2 ^ j"]
        by (simp add: k power_add mult.assoc)
      with 2 show ?thesis by (simp add: j_def)
    next
      case 3
      then have "nat (e - E) = nat (e - (E + int k)) + k" by simp
      then have "round_half_even (\<bar>M\<bar> * 2 ^ k) (2 ^ nat (e - E))
          = round_half_even (\<bar>M\<bar> * 2 ^ k) (2 ^ nat (e - (E + int k)) * 2 ^ k)"
        by (simp add: power_add)
      also have "\<dots> = round_half_even \<bar>M\<bar> (2 ^ nat (e - (E + int k)))"
        by (rule round_half_even_cancel) simp_all
      finally show ?thesis using 3 by simp
    qed
  qed
  have sgn: "sgn (M * 2 ^ k) = sgn M" and nz: "M * 2 ^ k \<noteq> 0"
    and gt: "0 < M * 2 ^ k \<longleftrightarrow> 0 < M"
    using False by (simp_all add: sgn_mult zero_less_mult_iff)
  show ?thesis
    by (simp only: round_to_double_def Let_def nz False if_False abs bl e m sgn gt
        e_def [symmetric])
qed

lemma js_multiply_exact:
  assumes "\<bar>M * q\<bar> < 2 ^ 53" and "- 1074 \<le> e" and "e + int k \<le> 971"
  shows "exact_product (Double (M * 2 ^ k) e) q (js_multiply (Double (M * 2 ^ k) e) q)"
proof -
  have lower: "- 1074 \<le> e + int k"
    using assms(2) by simp
  from round_to_double_exact [OF assms(1) lower assms(3)] obtain m' e' where
    run: "round_to_double (M * q) (e + int k) = Double m' e'"
    and val: "(of_int m' :: rat) * power_int 2 e' = of_int (M * q) * power_int 2 (e + int k)"
    by blast
  have "M * 2 ^ k * q = M * q * 2 ^ k"
    by (simp add: ac_simps)
  then have "js_multiply (Double (M * 2 ^ k) e) q = round_to_double (M * q * 2 ^ k) e"
    by (simp only: js_multiply.simps)
  also have "\<dots> = Double m' e'"
    by (simp add: round_to_double_shift run)
  finally have prod: "js_multiply (Double (M * 2 ^ k) e) q = Double m' e'" .
  have "(power_int 2 (e + int k) :: rat) = 2 ^ k * power_int 2 e"
    by (simp add: power_int_add mult.commute)
  with val have "(of_int m' :: rat) * power_int 2 e'
      = of_int (M * 2 ^ k) * power_int 2 e * of_int q"
    by (simp add: ac_simps)
  then show ?thesis
    unfolding exact_product_def prod by simp
qed

text \<open>The literals and the products of the examples.\<close>

lemma sample_literal:
  "(case number_value d999_99 of
      Some v \<Rightarrow> \<bar>v - 99999 / 100\<bar> < 1 / 2 ^ 44
    | None \<Rightarrow> False)"
  by code_simp

lemma sample_products:
  "js_multiply d450 3 = d1350"
  "js_multiply d500 3 = d1500"
  "js_multiply d999_99 3 = Double 6597003795958334 (- 41)"
  by code_simp+

lemma sample_positive: "\<not> js_le_zero d500"
  by (simp add: d500_def)

lemma sample_strings:
  "emailRegex_test ''jane@example.com''"
  "emailRegex_test ''nobody@example.com''"
  "emailRegex_test ''testuser123@example.com''"
  "\<not> emailRegex_test ''nobody''"
  "\<not> emailRegex_test nbsp_address"
  "nbsp_address \<noteq> []"
  "utf16 nbsp_address = [0x61, 0xA0, 0x62, 0x40, 0x63, 0x2E, 0x64]"
  "length (utf16 ''testuser123'') = 11"
  "length (utf16 ''password123'') = 11"
  "length (utf16 ''jane_s'') = 6"
  by code_simp+

lemma emailRegex_test_nonempty: "emailRegex_test e \<Longrightarrow> e \<noteq> []"
  by (auto simp: emailRegex_test_def plain_def Let_def utf16.simps)

lemma john_ctx_user: "ctx_user john_ctx = Some john_claims"
  by (simp add: john_ctx_def createContext_def generateToken_def jwt_sign_def demo_env_def
      john_def john_claims_def)

lemma jane_ctx_user: "ctx_user jane_ctx = Some jane_claims"
  by (simp add: jane_ctx_def createContext_def generateToken_def jwt_sign_def demo_env_def
      jane_def jane_claims_def)

subsection \<open>Existence before ownership for listings and orders\<close>

lemma listing_missing:
  assumes "ctx_user ctx = Some u" and "getListingById s i = None"
  shows "Mutation_updateListing E ctx i inp s = (Inl (not_found ''Listing'' i), s)"
    and "Mutation_deleteListing ctx i s = (Inl (not_found ''Listing'' i), s)"
  using assms
  by (simp_all add: Mutation_updateListing_def Mutation_deleteListing_def requireAuth_Some)

lemma order_missing:
  assumes "ctx_user ctx = Some u" and "getOrderById s i = None"
  shows "Mutation_updateOrder E ctx i oin s = (Inl (not_found ''Order'' i), s)"
    and "Mutation_deleteOrder ctx i s = (Inl (not_found ''Order'' i), s)"
    and "Mutation_cancelOrder E ctx i r s = (Inl (not_found ''Order'' i), s)"
  using assms
  by (simp_all add: Mutation_updateOrder_def Mutation_deleteOrder_def
      Mutation_cancelOrder_def requireAuth_Some)

lemma listing_foreign:
  assumes "ctx_user ctx = Some u" and "getListingById s i = Some l"
    and "listing_userId l \<noteq> payload_id u"
  shows "Mutation_updateListing E ctx i inp s = (Inl access_denied, s)"
    and "Mutation_deleteListing ctx i s = (Inl access_denied, s)"
  using assms
  by (auto simp add: Mutation_updateListing_def Mutation_deleteListing_def
      requireAuth_Some requireOwnership_Some)

lemma order_foreign:
  assumes "ctx_user ctx = Some u" and "getOrderById s i = Some ord"
    and "order_userId ord \<noteq> payload_id u"
  shows "Mutation_updateOrder E ctx i oin s = (Inl access_denied, s)"
    and "Mutation_deleteOrder ctx i s = (Inl access_denied, s)"
    and "Mutation_cancelOrder E ctx i r s = (Inl access_denied, s)"
  using assms
  by (auto simp add: Mutation_updateOrder_def Mutation_deleteOrder_def
      Mutation_cancelOrder_def requireAuth_Some requireOwnership_Some)

text \<open>
  Claim C5.  For \<open>updateListing\<close>, \<open>deleteListing\<close>, \<open>updateOrder\<close>, \<open>deleteOrder\<close> and
  \<open>cancelOrder\<close> called by an authenticated user: when no resource has the given
  identifier the resolver throws \<open>NOT_FOUND\<close>, and when the resource exists and belongs to
  another user it throws \<open>FORBIDDEN\<close>; in both cases the store is returned as it was.
\<close>

theorem existence_before_ownership:
  assumes "ctx_user ctx = Some u"
  shows "(getListingById s i = None \<longrightarrow>
            Mutation_updateListing E ctx i inp s = (Inl (not_found ''Listing'' i), s) \<and>
            Mutation_deleteListing ctx i s = (Inl (not_found ''Listing'' i), s))
       \<and> (getOrderById s j = None \<longrightarrow>
            Mutation_updateOrder E ctx j oin s = (Inl (not_found ''Order'' j), s) \<and>
            Mutation_deleteOrder ctx j s = (Inl (not_found ''Order'' j), s) \<and>
            Mutation_cancelOrder E ctx j r s = (Inl (not_found ''Order'' j), s))
       \<and> (\<forall>l. getListingById s i = Some l \<and> listing_userId l \<noteq> payload_id u \<longrightarrow>
            Mutation_updateListing E ctx i inp s = (Inl access_denied, s) \<and>
            Mutation_deleteListing ctx i s = (Inl access_denied, s))
       \<and> (\<forall>ord. getOrderById s j = Some ord \<and> order_userId ord \<noteq> payload_id u \<longrightarrow>
            Mutation_updateOrder E ctx j oin s = (Inl access_denied, s) \<and>
            Mutation_deleteOrder ctx j s = (Inl access_denied, s) \<and>
            Mutation_cancelOrder E ctx j r s = (Inl access_denied, s))
       \<and> code (not_found ''Listing'' i) = NOT_FOUND
       \<and> code (not_found ''Order'' j) = NOT_FOUND
       \<and> code access_denied = FORBIDDEN"
  using assms listing_missing [of ctx u s i] order_missing [of ctx u s j]
    listing_foreign [of ctx u s i] order_foreign [of ctx u s j]
  by (simp add: not_found_def access_denied_def)

theorem existence_before_ownership_witness:
  "ctx_user jane_ctx = Some jane_claims
   \<and> getListingById sample_store 9 = None
   \<and> getOrderById sample_store 9 = None
   \<and> Mutation_updateListing demo_env jane_ctx 9 no_listing_updates sample_store
       = (Inl (not_found ''Listing'' 9), sample_store)
   \<and> Mutation_cancelOrder demo_env jane_ctx 9 None sample_store
       = (Inl (not_found ''Order'' 9), sample_store)
   \<and> map_option listing_userId (getListingById sample_store 1) = Some 1
   \<and> payload_id jane_claims = 2
   \<and> Mutation_deleteListing jane_ctx 1 sample_store = (Inl access_denied, sample_store)
   \<and> ctx_user john_ctx = Some john_claims
   \<and> map_option order_userId (getOrderById sample_store 1) = Some 2
   \<and> payload_id john_claims = 1
   \<and> Mutation_deleteOrder john_ctx 1 sample_store = (Inl access_denied, sample_store)"
proof -
  have l9: "getListingById sample_store 9 = None"
    by (simp add: getListingById_def sample_store_def DataStore_constructor_def iphone_def guitar_def)
  have o9: "getOrderById sample_store 9 = None"
    by (simp add: getOrderById_def sample_store_def DataStore_constructor_def iphone_def guitar_def sample_order_def)
  obtain l where l1: "getListingById sample_store 1 = Some l" and lu: "listing_userId l = 1"
    by (simp add: getListingById_def sample_store_def DataStore_constructor_def iphone_def guitar_def)
  obtain ord where o1: "getOrderById sample_store 1 = Some ord" and ou: "order_userId ord = 2"
    by (simp add: getOrderById_def sample_store_def DataStore_constructor_def iphone_def guitar_def sample_order_def)
  have pj: "payload_id jane_claims = 2" and pk: "payload_id john_claims = 1"
    by (simp_all add: jane_claims_def john_claims_def)
  note a = existence_before_ownership [OF jane_ctx_user, of sample_store 9 demo_env no_listing_updates 9 _ None]
  note b = existence_before_ownership [OF jane_ctx_user, of sample_store 1 demo_env no_listing_updates 9 _ None]
  note c = existence_before_ownership [OF john_ctx_user, of sample_store 9 demo_env no_listing_updates 1 _ None]
  from a b c l9 o9 l1 lu o1 ou pj pk jane_ctx_user john_ctx_user show ?thesis
    by simp
qed

subsection \<open>Ownership before existence for users\<close>


lemma user_foreign:
  assumes "ctx_user ctx = Some u" "payload_id u \<noteq> i"
  shows "Mutation_updateUser E ctx i inp s = (Inl access_denied, s)"
    and "Mutation_deleteUser ctx i s = (Inl access_denied, s)"
  using assms by (simp_all add: Mutation_updateUser_def Mutation_deleteUser_def requireOwnership_Some)

lemma requireOwnership_Inr: "requireOwnership ctx r = Inr u \<Longrightarrow> ctx_user ctx = Some u \<and> payload_id u = r"
  by (auto simp: requireOwnership_def requireAuth_def split: option.splits if_splits)

lemma requireOwnership_Inl: "requireOwnership ctx r = Inl e \<Longrightarrow> e \<noteq> GraphQLError m NOT_FOUND d"
  by (auto simp: requireOwnership_def requireAuth_def access_denied_def split: option.splits if_splits)

lemma deleteUser_not_found:
  assumes "fst (Mutation_deleteUser ctx i s) = Inl (GraphQLError m NOT_FOUND d)"
  shows "map_option payload_id (ctx_user ctx) = Some i \<and> getUserById s i = None"
proof (cases "requireOwnership ctx i")
  case (Inl e)
  with assms requireOwnership_Inl [of ctx i e m d] show ?thesis
    by (simp add: Mutation_deleteUser_def)
next
  case (Inr u)
  from requireOwnership_Inr [OF Inr] have "map_option payload_id (ctx_user ctx) = Some i" by simp
  moreover from assms Inr have "getUserById s i = None"
    by (auto simp: Mutation_deleteUser_def split: option.splits prod.splits if_splits)
  ultimately show ?thesis by simp
qed

lemma updateUser_not_found:
  assumes "fst (Mutation_updateUser E ctx i inp s) = Inl (GraphQLError m NOT_FOUND d)"
  shows "map_option payload_id (ctx_user ctx) = Some i \<and> getUserById s i = None"
proof (cases "requireOwnership ctx i")
  case (Inl e)
  with assms requireOwnership_Inl [of ctx i e m d] show ?thesis
    by (simp add: Mutation_updateUser_def)
next
  case (Inr u)
  from requireOwnership_Inr [OF Inr] have "map_option payload_id (ctx_user ctx) = Some i" by simp
  moreover from assms Inr have "getUserById s i = None"
    by (auto simp: Mutation_updateUser_def check_def validateUsername_def validatePassword_def
        validateEmail_def validation_error_def email_conflict_def Let_def
        split: option.splits prod.splits if_splits sum.splits)
  ultimately show ?thesis by simp
qed

lemma user_missing:
  assumes "ctx_user ctx = Some u" "payload_id u = i" "getUserById s i = None"
  shows "Mutation_updateUser E ctx i inp s = (Inl (not_found ''User'' i), s)"
    and "Mutation_deleteUser ctx i s = (Inl (not_found ''User'' i), s)"
  using assms by (simp_all add: Mutation_updateUser_def Mutation_deleteUser_def requireOwnership_Some)

text \<open>
  Claim C10.  \<open>updateUser\<close> and \<open>deleteUser\<close> check ownership first: a caller whose
  identifier differs from the target identifier gets \<open>FORBIDDEN\<close>, whether or not a user
  with the target identifier exists.  A \<open>NOT_FOUND\<close> error is thrown only to a caller
  whose own identifier is the target and whose record is not in the store, and such a
  caller does get it.
\<close>

theorem ownership_before_existence:
  "(\<forall>u. ctx_user ctx = Some u \<and> payload_id u \<noteq> i \<longrightarrow>
      Mutation_updateUser E ctx i inp s = (Inl access_denied, s) \<and>
      Mutation_deleteUser ctx i s = (Inl access_denied, s))
   \<and> (\<forall>m d. fst (Mutation_updateUser E ctx i inp s) = Inl (GraphQLError m NOT_FOUND d) \<longrightarrow>
         map_option payload_id (ctx_user ctx) = Some i \<and> getUserById s i = None)
   \<and> (\<forall>m d. fst (Mutation_deleteUser ctx i s) = Inl (GraphQLError m NOT_FOUND d) \<longrightarrow>
         map_option payload_id (ctx_user ctx) = Some i \<and> getUserById s i = None)
   \<and> (\<forall>u. ctx_user ctx = Some u \<and> payload_id u = i \<and> getUserById s i = None \<longrightarrow>
         Mutation_updateUser E ctx i inp s = (Inl (not_found ''User'' i), s) \<and>
         Mutation_deleteUser ctx i s = (Inl (not_found ''User'' i), s))
   \<and> code access_denied = FORBIDDEN"
proof -
  have forbidden: "\<forall>u. ctx_user ctx = Some u \<and> payload_id u \<noteq> i \<longrightarrow>
      Mutation_updateUser E ctx i inp s = (Inl access_denied, s) \<and>
      Mutation_deleteUser ctx i s = (Inl access_denied, s)"
    by (simp add: user_foreign)
  have update_only: "\<forall>m d. fst (Mutation_updateUser E ctx i inp s)
        = Inl (GraphQLError m NOT_FOUND d) \<longrightarrow>
      map_option payload_id (ctx_user ctx) = Some i \<and> getUserById s i = None"
    using updateUser_not_found [of E ctx i inp s] by blast
  have delete_only: "\<forall>m d. fst (Mutation_deleteUser ctx i s)
        = Inl (GraphQLError m NOT_FOUND d) \<longrightarrow>
      map_option payload_id (ctx_user ctx) = Some i \<and> getUserById s i = None"
    using deleteUser_not_found [of ctx i s] by blast
  have missing: "\<forall>u. ctx_user ctx = Some u \<and> payload_id u = i \<and> getUserById s i = None \<longrightarrow>
      Mutation_updateUser E ctx i inp s = (Inl (not_found ''User'' i), s) \<and>
      Mutation_deleteUser ctx i s = (Inl (not_found ''User'' i), s)"
    by (simp add: user_missing)
  have forbidden_code: "code access_denied = FORBIDDEN"
    by (simp add: access_denied_def)
  show ?thesis
    by (intro conjI forbidden update_only delete_only missing forbidden_code)
qed

theorem ownership_before_existence_witness:
  "ctx_user jane_ctx = Some jane_claims \<and> payload_id jane_claims = 2
   \<and> getUserById sample_store 1 = Some john
   \<and> Mutation_updateUser demo_env jane_ctx 1 no_user_updates sample_store
       = (Inl access_denied, sample_store)
   \<and> getUserById sample_store 7 = None
   \<and> Mutation_deleteUser jane_ctx 7 sample_store = (Inl access_denied, sample_store)
   \<and> getUserById jane_gone_store 2 = None
   \<and> fst (Mutation_deleteUser jane_ctx 2 jane_gone_store)
       = Inl (GraphQLError ''User not found'' NOT_FOUND
                (WithId ''User with ID '' 2 '' does not exist''))
   \<and> fst (Mutation_updateUser demo_env jane_ctx 2 no_user_updates jane_gone_store)
       = Inl (GraphQLError ''User not found'' NOT_FOUND
                (WithId ''User with ID '' 2 '' does not exist''))
   \<and> map_option payload_id (ctx_user jane_ctx) = Some 2"
proof -
  have pj: "payload_id jane_claims = 2"
    by (simp add: jane_claims_def)
  have u1: "getUserById sample_store 1 = Some john"
    and u7: "getUserById sample_store 7 = None"
    by (simp_all add: getUserById_def sample_store_def DataStore_constructor_def iphone_def guitar_def john_def
        jane_def)
  have own: "requireOwnership jane_ctx 2 = Inr jane_claims"
    by (simp add: requireOwnership_Some [OF jane_ctx_user] pj)
  have gone: "getUserById jane_gone_store 2 = None"
    by (simp add: jane_gone_store_def Mutation_deleteUser_def own getUserById_def
        dataStore_deleteUser_def sample_store_def DataStore_constructor_def iphone_def guitar_def john_def jane_def
        splice1_def)
  note a = ownership_before_existence [of jane_ctx 1 demo_env no_user_updates sample_store]
  note b = ownership_before_existence [of jane_ctx 7 demo_env no_user_updates sample_store]
  note c = ownership_before_existence [of jane_ctx 2 demo_env no_user_updates jane_gone_store]
  from c jane_ctx_user pj gone
  have nf: "Mutation_updateUser demo_env jane_ctx 2 no_user_updates jane_gone_store
              = (Inl (not_found ''User'' 2), jane_gone_store)"
    "Mutation_deleteUser jane_ctx 2 jane_gone_store
              = (Inl (not_found ''User'' 2), jane_gone_store)"
    by simp_all
  from a b c nf jane_ctx_user pj u1 u7 gone show ?thesis
    by (simp add: not_found_def)
qed

subsection \<open>Creating an order\<close>

lemma createOrder_found:
  assumes "ctx_user ctx = Some u" and "oc_listingId input = Some lid"
    and "oc_quantity input = Some q" and "0 < q" and "oc_shippingAddress input = Some a"
    and "getListingById s lid = Some l"
  shows "Mutation_createOrder E ctx input s =
           (Inr (OrderResult (Some
              \<lparr>order_id = nextOrderId s, order_userId = payload_id u, listingId = lid,
               quantity = q, totalPrice = multiply E (price l) q, status = ''PENDING'',
               shippingAddress = a, buyerNotes = oc_buyerNotes input,
               cancelReason = None, cancelledAt = None,
               order_createdAt = now E, order_updatedAt = now E\<rparr>)),
            s\<lparr>orders := orders s @
               [\<lparr>order_id = nextOrderId s, order_userId = payload_id u, listingId = lid,
                 quantity = q, totalPrice = multiply E (price l) q, status = ''PENDING'',
                 shippingAddress = a, buyerNotes = oc_buyerNotes input,
                 cancelReason = None, cancelledAt = None,
                 order_createdAt = now E, order_updatedAt = now E\<rparr>],
              nextOrderId := nextOrderId s + 1\<rparr>)"
  using assms
  by (simp add: Mutation_createOrder_def requireAuth_Some validateRequired_def
      validateQuantity_def dataStore_createOrder_def Let_def)

lemma createOrder_missing:
  assumes "ctx_user ctx = Some u" and "oc_listingId input = Some lid"
    and "oc_quantity input = Some q" and "0 < q" and "oc_shippingAddress input = Some a"
    and "getListingById s lid = None"
  shows "Mutation_createOrder E ctx input s = (Inl (not_found ''Listing'' lid), s)"
  using assms
  by (simp add: Mutation_createOrder_def requireAuth_Some validateRequired_def
      validateQuantity_def)

text \<open>
  Claim C4, amended.  An authenticated \<open>createOrder\<close> whose input passes validation
  (listing identifier, a positive quantity \<open>q\<close> and a shipping address are present),
  with the arithmetic of JavaScript numbers: when the listing exists with price \<open>P\<close>,
  the resolver appends and returns an order whose status is \<open>PENDING\<close> and whose
  \<open>totalPrice\<close> is the double product \<open>P * q\<close>, that is the exact product rounded to
  the nearest double; it is the exact product whenever the mantissa of \<open>P\<close> without
  trailing zero bits, multiplied by \<open>q\<close>, has at most 53 bits and the exponent stays in
  range.  When the listing does not exist the resolver throws \<open>NOT_FOUND\<close> and the
  store is as before.
\<close>

theorem createOrder_total_price:
  assumes "ctx_user ctx = Some u" and "oc_listingId input = Some lid"
    and "oc_quantity input = Some q" and "0 < q" and "oc_shippingAddress input = Some a"
    and "multiply E = js_multiply"
  shows "(\<forall>l. getListingById s lid = Some l \<longrightarrow>
           (\<exists>ord. Mutation_createOrder E ctx input s =
                    (Inr (OrderResult (Some ord)),
                     s\<lparr>orders := orders s @ [ord], nextOrderId := nextOrderId s + 1\<rparr>)
                \<and> totalPrice ord = js_multiply (price l) q
                \<and> (\<forall>M k e. price l = Double (M * 2 ^ k) e \<and> \<bar>M * q\<bar> < 2 ^ 53
                          \<and> - 1074 \<le> e \<and> e + int k \<le> 971 \<longrightarrow>
                       exact_product (price l) q (totalPrice ord))
                \<and> status ord = ''PENDING''
                \<and> quantity ord = q \<and> listingId ord = lid
                \<and> order_userId ord = payload_id u \<and> order_id ord = nextOrderId s))
       \<and> (getListingById s lid = None \<longrightarrow>
            Mutation_createOrder E ctx input s = (Inl (not_found ''Listing'' lid), s))
       \<and> code (not_found ''Listing'' lid) = NOT_FOUND"
proof -
  have found: "\<forall>l. getListingById s lid = Some l \<longrightarrow>
           (\<exists>ord. Mutation_createOrder E ctx input s =
                    (Inr (OrderResult (Some ord)),
                     s\<lparr>orders := orders s @ [ord], nextOrderId := nextOrderId s + 1\<rparr>)
                \<and> totalPrice ord = js_multiply (price l) q
                \<and> (\<forall>M k e. price l = Double (M * 2 ^ k) e \<and> \<bar>M * q\<bar> < 2 ^ 53
                          \<and> - 1074 \<le> e \<and> e + int k \<le> 971 \<longrightarrow>
                       exact_product (price l) q (totalPrice ord))
                \<and> status ord = ''PENDING''
                \<and> quantity ord = q \<and> listingId ord = lid
                \<and> order_userId ord = payload_id u \<and> order_id ord = nextOrderId s)"
  proof (intro allI impI)
    fix l
    assume l: "getListingById s lid = Some l"
    have exact: "\<forall>M k e. price l = Double (M * 2 ^ k) e \<and> \<bar>M * q\<bar> < 2 ^ 53
                          \<and> - 1074 \<le> e \<and> e + int k \<le> 971 \<longrightarrow>
                       exact_product (price l) q (js_multiply (price l) q)"
      using js_multiply_exact by auto
    from createOrder_found [OF assms(1-5) l, of E] assms(6) exact
    show "\<exists>ord. Mutation_createOrder E ctx input s =
                    (Inr (OrderResult (Some ord)),
                     s\<lparr>orders := orders s @ [ord], nextOrderId := nextOrderId s + 1\<rparr>)
                \<and> totalPrice ord = js_multiply (price l) q
                \<and> (\<forall>M k e. price l = Double (M * 2 ^ k) e \<and> \<bar>M * q\<bar> < 2 ^ 53
                          \<and> - 1074 \<le> e \<and> e + int k \<le> 971 \<longrightarrow>
                       exact_product (price l) q (totalPrice ord))
                \<and> status ord = ''PENDING''
                \<and> quantity ord = q \<and> listingId ord = lid
                \<and> order_userId ord = payload_id u \<and> order_id ord = nextOrderId s"
      by simp
  qed
  have missing: "getListingById s lid = None \<longrightarrow>
            Mutation_createOrder E ctx input s = (Inl (not_found ''Listing'' lid), s)"
    by (simp add: createOrder_missing [OF assms(1-5)])
  have nf: "code (not_found ''Listing'' lid) = NOT_FOUND"
    by (simp add: not_found_def)
  show ?thesis
    by (intro conjI found missing nf)
qed

lemmas order_run_defs =
  Mutation_createOrder_def dataStore_createOrder_def getListingById_def
  validateRequired_def validateQuantity_def
  sample_store_def DataStore_constructor_def iphone_def guitar_def
  guitar_order_def missing_order_def iphone_order_def demo_env_def Let_def
  sample_products

theorem createOrder_rounding_counterexample:
  "map_option price (getListingById sample_store 1) = Some d999_99
   \<and> oc_quantity iphone_order = Some 3
   \<and> map_option totalPrice
       (result_order (Mutation_createOrder demo_env jane_ctx iphone_order sample_store))
       = Some (Double 6597003795958334 (- 41))
   \<and> \<not> exact_product d999_99 3 (Double 6597003795958334 (- 41))"
proof -
  have inexact: "\<not> exact_product d999_99 3 (Double 6597003795958334 (- 41))"
    by code_simp
  show ?thesis
    by (simp add: order_run_defs requireAuth_Some [OF jane_ctx_user] inexact)
qed

theorem createOrder_total_price_witness:
  "ctx_user john_ctx = Some john_claims
   \<and> multiply demo_env = js_multiply
   \<and> map_option price (getListingById sample_store 2) = Some d450
   \<and> map_option totalPrice
       (result_order (Mutation_createOrder demo_env john_ctx guitar_order sample_store))
       = Some d1350
   \<and> exact_product d450 3 d1350
   \<and> map_option status
       (result_order (Mutation_createOrder demo_env john_ctx guitar_order sample_store))
       = Some ''PENDING''
   \<and> getListingById sample_store 9 = None
   \<and> Mutation_createOrder demo_env john_ctx missing_order sample_store
        = (Inl (not_found ''Listing'' 9), sample_store)"
proof -
  obtain l where l2: "getListingById sample_store 2 = Some l" and pl: "price l = d450"
    by (simp add: getListingById_def sample_store_def DataStore_constructor_def iphone_def guitar_def)
  have l9: "getListingById sample_store 9 = None"
    by (simp add: getListingById_def sample_store_def DataStore_constructor_def iphone_def guitar_def)
  have js: "multiply demo_env = js_multiply"
    by (simp add: demo_env_def)
  have t: "js_multiply d450 3 = d1350"
    by (simp add: sample_products)
  have small: "price l = Double (225 * 2 ^ 45) (- 44)" "\<bar>225 * 3\<bar> < (2::int) ^ 53"
    "- 1074 \<le> (- 44 :: int)" "- 44 + int 45 \<le> 971"
    by (simp_all add: pl d450_def)
  have g: "oc_listingId guitar_order = Some 2" "oc_quantity guitar_order = Some 3"
     "oc_shippingAddress guitar_order = Some \<lparr>street = ''789 Test Ave'', city = ''Test City'', state = ''TS'',
                         zipCode = ''12345'', country = ''USA''\<rparr>"
    by (simp_all add: guitar_order_def)
  have m: "oc_listingId missing_order = Some 9" "oc_quantity missing_order = Some 3"
     "oc_shippingAddress missing_order = Some \<lparr>street = ''789 Test Ave'', city = ''Test City'', state = ''TS'',
                         zipCode = ''12345'', country = ''USA''\<rparr>"
    by (simp_all add: missing_order_def guitar_order_def)
  note a = createOrder_total_price [OF john_ctx_user g(1) g(2) _ g(3) js, of sample_store]
  note b = createOrder_total_price [OF john_ctx_user m(1) m(2) _ m(3) js, of sample_store]
  from a l2 obtain ord where run:
    "Mutation_createOrder demo_env john_ctx guitar_order sample_store =
       (Inr (OrderResult (Some ord)),
        sample_store\<lparr>orders := orders sample_store @ [ord],
                      nextOrderId := nextOrderId sample_store + 1\<rparr>)"
    and total: "totalPrice ord = js_multiply (price l) 3"
    and exact: "\<forall>M k e. price l = Double (M * 2 ^ k) e \<and> \<bar>M * 3\<bar> < 2 ^ 53
                  \<and> - 1074 \<le> e \<and> e + int k \<le> 971 \<longrightarrow>
                exact_product (price l) 3 (totalPrice ord)"
    and pending: "status ord = ''PENDING''"
    by auto
  from total pl t have total': "totalPrice ord = d1350"
    by simp
  from exact small have "exact_product (price l) 3 (totalPrice ord)"
    by blast
  with pl total' have ex: "exact_product d450 3 d1350"
    by simp
  from b l9 l2 pl john_ctx_user js run total' pending ex show ?thesis
    by simp
qed

subsection \<open>Cancelling an order\<close>

lemma find_Some_holds: "find P xs = Some x \<Longrightarrow> P x"
  by (induction xs) (auto split: if_splits)

lemma getOrderById_id: "getOrderById s i = Some ord \<Longrightarrow> order_id ord = i"
  by (auto simp: getOrderById_def dest: find_Some_holds)

text \<open>Replacing the first order with identifier \<open>i\<close> by one with the same identifier.\<close>

lemma orders_replace_same:
  assumes "findIndex (\<lambda>order. order_id order = i) (orders s) = Some k"
    and "order_id new = i"
  shows "getOrderById (s\<lparr>orders := (orders s)[k := new]\<rparr>) i = Some new"
  using assms by (simp add: getOrderById_def find_update_first)

lemma orders_replace_other:
  assumes "findIndex (\<lambda>order. order_id order = i) (orders s) = Some k"
    and "order_id new = i" and "j \<noteq> i"
  shows "getOrderById (s\<lparr>orders := (orders s)[k := new]\<rparr>) j = getOrderById s j"
proof -
  from findIndex_Some [OF assms(1)]
  have "k < length (orders s)" and "find (\<lambda>order. order_id order = i) (orders s) = Some (orders s ! k)"
    by simp_all
  then have "order_id (orders s ! k) = i"
    by (auto dest: find_Some_holds)
  with assms \<open>k < length (orders s)\<close> show ?thesis
    by (simp add: getOrderById_def find_update_other)
qed

lemma getOrderById_index:
  assumes "getOrderById s i = Some ord"
  obtains k where "findIndex (\<lambda>order. order_id order = i) (orders s) = Some k"
    and "orders s ! k = ord"
  using assms find_Some_findIndex [of "\<lambda>order. order_id order = i" "orders s" ord]
  by (auto simp: getOrderById_def)

lemma cancelOrder_allowed:
  assumes "ctx_user ctx = Some u" and "getOrderById s i = Some ord"
    and "order_userId ord = payload_id u"
    and "status ord \<noteq> ''CANCELLED''" and "status ord \<noteq> ''DELIVERED''"
  shows "fst (Mutation_cancelOrder E ctx i r s) =
           Inr (CancelResult ''Order cancelled successfully''
                  (Some (ord\<lparr>status := ''CANCELLED'', cancelledAt := Some (now E),
                              cancelReason :=
                                Some (case r of
                                        None \<Rightarrow> ''No reason provided''
                                      | Some t \<Rightarrow> if t = [] then ''No reason provided'' else t),
                              order_updatedAt := now E\<rparr>)))"
    and "getOrderById (snd (Mutation_cancelOrder E ctx i r s)) i =
           result_order (Mutation_cancelOrder E ctx i r s)"
    and "j \<noteq> i \<Longrightarrow> getOrderById (snd (Mutation_cancelOrder E ctx i r s)) j = getOrderById s j"
    and "users (snd (Mutation_cancelOrder E ctx i r s)) = users s"
    and "listings (snd (Mutation_cancelOrder E ctx i r s)) = listings s"
proof -
  from assms(2) obtain k where k: "findIndex (\<lambda>order. order_id order = i) (orders s) = Some k"
    and ord: "orders s ! k = ord"
    by (rule getOrderById_index)
  have oid: "order_id ord = i"
    using assms(2) by (rule getOrderById_id)
  let ?new = "ord\<lparr>status := ''CANCELLED'', cancelledAt := Some (now E),
                   cancelReason :=
                     Some (case r of
                             None \<Rightarrow> ''No reason provided''
                           | Some t \<Rightarrow> if t = [] then ''No reason provided'' else t),
                   order_updatedAt := now E\<rparr>"
  have run: "Mutation_cancelOrder E ctx i r s =
               (Inr (CancelResult ''Order cancelled successfully'' (Some ?new)),
                s\<lparr>orders := (orders s)[k := ?new]\<rparr>)"
    using assms k ord
    by (cases r)
      (simp_all add: Mutation_cancelOrder_def requireAuth_Some requireOwnership_Some
        dataStore_cancelOrder_def Let_def)
  show "fst (Mutation_cancelOrder E ctx i r s) =
          Inr (CancelResult ''Order cancelled successfully'' (Some ?new))"
    by (simp add: run)
  show "getOrderById (snd (Mutation_cancelOrder E ctx i r s)) i =
          result_order (Mutation_cancelOrder E ctx i r s)"
    using orders_replace_same [OF k, of ?new] oid by (simp add: run)
  show "j \<noteq> i \<Longrightarrow> getOrderById (snd (Mutation_cancelOrder E ctx i r s)) j = getOrderById s j"
    using orders_replace_other [OF k, of ?new j] oid by (simp add: run)
  show "users (snd (Mutation_cancelOrder E ctx i r s)) = users s"
    and "listings (snd (Mutation_cancelOrder E ctx i r s)) = listings s"
    by (simp_all add: run)
qed

lemma cancelOrder_refused:
  assumes "ctx_user ctx = Some u" and "getOrderById s i = Some ord"
    and "order_userId ord = payload_id u"
  shows "status ord = ''CANCELLED'' \<Longrightarrow>
           Mutation_cancelOrder E ctx i r s =
             (Inl (GraphQLError ''Order is already cancelled'' INVALID_OPERATION
                     (Text ''This order has already been cancelled'')), s)"
    and "status ord = ''DELIVERED'' \<Longrightarrow>
           Mutation_cancelOrder E ctx i r s =
             (Inl (GraphQLError ''Cannot cancel delivered order'' INVALID_OPERATION
                     (Text ''Delivered orders cannot be cancelled'')), s)"
  using assms
  by (simp_all add: Mutation_cancelOrder_def requireAuth_Some requireOwnership_Some)

text \<open>
  Claim C2, amended.  For an existing order and its authenticated owner: \<open>cancelOrder\<close>
  on a \<open>CANCELLED\<close> or \<open>DELIVERED\<close> order throws \<open>INVALID_OPERATION\<close> and returns the store
  as it was; otherwise the stored and returned order has status \<open>CANCELLED\<close>, the
  cancellation time of the clock, and as cancellation reason the supplied reason when it
  is a non-empty string, and \<open>No reason provided\<close> when no reason or the empty string
  was supplied.  No other order, user or listing changes.
\<close>

theorem cancelOrder_contract:
  assumes "ctx_user ctx = Some u" and "getOrderById s i = Some ord"
    and "order_userId ord = payload_id u"
  shows "(status ord = ''CANCELLED'' \<longrightarrow>
            Mutation_cancelOrder E ctx i r s =
              (Inl (GraphQLError ''Order is already cancelled'' INVALID_OPERATION
                      (Text ''This order has already been cancelled'')), s))
       \<and> (status ord = ''DELIVERED'' \<longrightarrow>
            Mutation_cancelOrder E ctx i r s =
              (Inl (GraphQLError ''Cannot cancel delivered order'' INVALID_OPERATION
                      (Text ''Delivered orders cannot be cancelled'')), s))
       \<and> (status ord \<noteq> ''CANCELLED'' \<and> status ord \<noteq> ''DELIVERED'' \<longrightarrow>
            fst (Mutation_cancelOrder E ctx i r s) =
              Inr (CancelResult ''Order cancelled successfully''
                     (Some (ord\<lparr>status := ''CANCELLED'', cancelledAt := Some (now E),
                                 cancelReason :=
                                   Some (case r of
                                           None \<Rightarrow> ''No reason provided''
                                         | Some t \<Rightarrow>
                                             if t = [] then ''No reason provided'' else t),
                                 order_updatedAt := now E\<rparr>)))
            \<and> getOrderById (snd (Mutation_cancelOrder E ctx i r s)) i =
                result_order (Mutation_cancelOrder E ctx i r s)
            \<and> (\<forall>j. j \<noteq> i \<longrightarrow>
                  getOrderById (snd (Mutation_cancelOrder E ctx i r s)) j = getOrderById s j)
            \<and> users (snd (Mutation_cancelOrder E ctx i r s)) = users s
            \<and> listings (snd (Mutation_cancelOrder E ctx i r s)) = listings s)"
proof (intro conjI impI allI)
  assume "status ord = ''CANCELLED''"
  with assms show "Mutation_cancelOrder E ctx i r s =
      (Inl (GraphQLError ''Order is already cancelled'' INVALID_OPERATION
              (Text ''This order has already been cancelled'')), s)"
    by (simp add: cancelOrder_refused)
next
  assume "status ord = ''DELIVERED''"
  with assms show "Mutation_cancelOrder E ctx i r s =
      (Inl (GraphQLError ''Cannot cancel delivered order'' INVALID_OPERATION
              (Text ''Delivered orders cannot be cancelled'')), s)"
    by (simp add: cancelOrder_refused)
next
  assume open_order: "status ord \<noteq> ''CANCELLED'' \<and> status ord \<noteq> ''DELIVERED''"
  with assms show "fst (Mutation_cancelOrder E ctx i r s) =
      Inr (CancelResult ''Order cancelled successfully''
             (Some (ord\<lparr>status := ''CANCELLED'', cancelledAt := Some (now E),
                         cancelReason :=
                           Some (case r of
                                   None \<Rightarrow> ''No reason provided''
                                 | Some t \<Rightarrow> if t = [] then ''No reason provided'' else t),
                         order_updatedAt := now E\<rparr>)))"
    by (simp add: cancelOrder_allowed)
  from assms open_order show "getOrderById (snd (Mutation_cancelOrder E ctx i r s)) i =
      result_order (Mutation_cancelOrder E ctx i r s)"
    by (simp add: cancelOrder_allowed)
  from assms open_order show "users (snd (Mutation_cancelOrder E ctx i r s)) = users s"
    by (simp add: cancelOrder_allowed)
  from assms open_order show "listings (snd (Mutation_cancelOrder E ctx i r s)) = listings s"
    by (simp add: cancelOrder_allowed)
  fix j
  assume "j \<noteq> i"
  with assms open_order
  show "getOrderById (snd (Mutation_cancelOrder E ctx i r s)) j = getOrderById s j"
    by (simp add: cancelOrder_allowed)
qed

lemmas run_defs =
  Mutation_cancelOrder_def Mutation_updateOrderStatus_def Mutation_updateOrder_def
  Mutation_deleteListing_def Mutation_updateListing_def dataStore_updateListing_def
  merge_listing_def no_listing_updates_def no_order_updates_def quantity_three_def
  dataStore_cancelOrder_def dataStore_updateOrderStatus_def dataStore_updateOrder_def
  dataStore_deleteListing_def getOrderById_def getListingById_def
  validateOrderStatus_def validStatuses_def validateQuantity_def validatePrice_def
  sample_store_def DataStore_constructor_def iphone_def guitar_def sample_order_def demo_env_def
  jane_claims_def john_claims_def splice1_def merge_order_def Let_def
  sample_products sample_positive

lemma sample_store_order:
  "getOrderById sample_store 1 = Some (sample_order d999_99 1699999999000)"
  by (simp add: getOrderById_def sample_store_def DataStore_constructor_def iphone_def guitar_def sample_order_def)

lemma cancelled_store_order:
  "getOrderById cancelled_store 1 =
     Some ((sample_order d999_99 1699999999000)
             \<lparr>status := ''CANCELLED'', cancelledAt := Some 1700000000000,
              cancelReason := Some ''No reason provided'',
              order_updatedAt := 1700000000000\<rparr>)"
  by (simp add: cancelled_store_def run_defs requireAuth_Some [OF jane_ctx_user]
      requireOwnership_Some [OF jane_ctx_user])

theorem cancelOrder_empty_reason_counterexample:
  "map_option cancelReason
     (result_order (Mutation_cancelOrder demo_env jane_ctx 1 (Some []) sample_store))
     = Some (Some ''No reason provided'')
   \<and> map_option cancelReason
     (result_order (Mutation_cancelOrder demo_env jane_ctx 1 (Some []) sample_store))
     \<noteq> Some (Some [])"
  by (simp add: run_defs requireAuth_Some [OF jane_ctx_user]
      requireOwnership_Some [OF jane_ctx_user])

lemma result_order_cancel: "fst out = Inr (CancelResult m ord) \<Longrightarrow> result_order out = ord"
  by (cases out) simp

lemma result_order_order: "fst out = Inr (OrderResult ord) \<Longrightarrow> result_order out = ord"
  by (cases out) simp

lemma delivered_store_order:
  "getOrderById delivered_store 1 =
     Some ((sample_order d999_99 1699999999000)
             \<lparr>status := ''DELIVERED'', order_updatedAt := 1700000000000\<rparr>)"
  by (simp add: delivered_store_def run_defs requireAuth_Some [OF jane_ctx_user]
      requireOwnership_Some [OF jane_ctx_user])

theorem cancelOrder_contract_witness:
  "ctx_user jane_ctx = Some jane_claims
   \<and> map_option order_userId (getOrderById sample_store 1) = Some (payload_id jane_claims)
   \<and> map_option status (getOrderById sample_store 1) = Some ''PENDING''
   \<and> fst (Mutation_cancelOrder demo_env jane_ctx 1 (Some ''Changed my mind'') sample_store) =
       Inr (CancelResult ''Order cancelled successfully''
              (Some ((sample_order d999_99 1699999999000)
                       \<lparr>status := ''CANCELLED'', cancelledAt := Some 1700000000000,
                        cancelReason := Some ''Changed my mind'',
                        order_updatedAt := 1700000000000\<rparr>)))
   \<and> map_option status (getOrderById cancelled_store 1) = Some ''CANCELLED''
   \<and> Mutation_cancelOrder demo_env jane_ctx 1 None cancelled_store =
       (Inl (GraphQLError ''Order is already cancelled'' INVALID_OPERATION
               (Text ''This order has already been cancelled'')), cancelled_store)
   \<and> map_option status (getOrderById delivered_store 1) = Some ''DELIVERED''
   \<and> Mutation_cancelOrder demo_env jane_ctx 1 None delivered_store =
       (Inl (GraphQLError ''Cannot cancel delivered order'' INVALID_OPERATION
               (Text ''Delivered orders cannot be cancelled'')), delivered_store)"
proof -
  have own: "order_userId (sample_order d999_99 1699999999000) = payload_id jane_claims"
    by (simp add: sample_order_def jane_claims_def)
  have pending: "status (sample_order d999_99 1699999999000) = ''PENDING''"
    by (simp add: sample_order_def)
  have clock: "now demo_env = 1700000000000"
    by (simp add: demo_env_def)
  note a = cancelOrder_contract [OF jane_ctx_user sample_store_order own,
      of demo_env "Some ''Changed my mind''"]
  note b = cancelOrder_contract [OF jane_ctx_user cancelled_store_order, of demo_env None]
  note c = cancelOrder_contract [OF jane_ctx_user delivered_store_order, of demo_env None]
  from a b c own pending clock jane_ctx_user show ?thesis
    by (simp add: sample_store_order cancelled_store_order delivered_store_order)
qed

subsection \<open>Updating the quantity of an order\<close>

lemma updateOrder_quantity:
  assumes "ctx_user ctx = Some u" and "getOrderById s i = Some ord"
    and "order_userId ord = payload_id u"
    and "upd_quantity input = Some q" and "0 < q"
  shows "fst (Mutation_updateOrder E ctx i input s) =
           Inr (OrderResult (Some (merge_order (now E) ord
             (case getListingById s (listingId ord) of
                None \<Rightarrow> input
              | Some l \<Rightarrow> input\<lparr>upd_totalPrice := Some (multiply E (price l) q)\<rparr>))))"
    and "upd_order_id input = None \<or> upd_order_id input = Some i \<Longrightarrow>
         getOrderById (snd (Mutation_updateOrder E ctx i input s)) i =
           result_order (Mutation_updateOrder E ctx i input s)"
proof -
  from assms(2) obtain k where k: "findIndex (\<lambda>order. order_id order = i) (orders s) = Some k"
    and ord: "orders s ! k = ord"
    by (rule getOrderById_index)
  have oid: "order_id ord = i"
    using assms(2) by (rule getOrderById_id)
  let ?upd = "case getListingById s (listingId ord) of
                None \<Rightarrow> input
              | Some l \<Rightarrow> input\<lparr>upd_totalPrice := Some (multiply E (price l) q)\<rparr>"
  let ?new = "merge_order (now E) ord ?upd"
  have run: "Mutation_updateOrder E ctx i input s =
               (Inr (OrderResult (Some ?new)), s\<lparr>orders := (orders s)[k := ?new]\<rparr>)"
    using assms k ord
    by (cases "getListingById s (listingId ord)")
      (simp_all add: Mutation_updateOrder_def requireAuth_Some requireOwnership_Some
        validateQuantity_def dataStore_updateOrder_def Let_def)
  show "fst (Mutation_updateOrder E ctx i input s) = Inr (OrderResult (Some ?new))"
    by (simp add: run)
  assume "upd_order_id input = None \<or> upd_order_id input = Some i"
  then have "order_id ?new = i"
    by (auto simp: merge_order_def oid split: option.splits)
  with orders_replace_same [OF k, of ?new]
  show "getOrderById (snd (Mutation_updateOrder E ctx i input s)) i =
          result_order (Mutation_updateOrder E ctx i input s)"
    by (simp add: run)
qed

text \<open>
  Claim C3, amended.  For an authenticated owner's \<open>updateOrder\<close> whose input has a
  positive quantity \<open>q\<close>: the order is updated and returned with quantity \<open>q\<close>; when the
  listing the order refers to is in the store, the new \<open>totalPrice\<close> is the product of
  that listing's price in the store at the time of the update and \<open>q\<close>; when the listing
  is no longer in the store, \<open>totalPrice\<close> keeps its previous value (or takes the value
  of a \<open>totalPrice\<close> key of the input, if it has one).  The returned order is the order
  stored under the identifier, unless the input has an \<open>id\<close> key with another identifier.
\<close>

theorem updateOrder_total_price:
  assumes "ctx_user ctx = Some u" and "getOrderById s i = Some ord"
    and "order_userId ord = payload_id u"
    and "upd_quantity input = Some q" and "0 < q"
  shows "(\<forall>l. getListingById s (listingId ord) = Some l \<longrightarrow>
           map_option totalPrice (result_order (Mutation_updateOrder E ctx i input s)) =
             Some (multiply E (price l) q))
       \<and> (getListingById s (listingId ord) = None \<longrightarrow>
           map_option totalPrice (result_order (Mutation_updateOrder E ctx i input s)) =
             Some (case upd_totalPrice input of None \<Rightarrow> totalPrice ord | Some v \<Rightarrow> v))
       \<and> map_option quantity (result_order (Mutation_updateOrder E ctx i input s)) = Some q
       \<and> (upd_order_id input = None \<or> upd_order_id input = Some i \<longrightarrow>
            getOrderById (snd (Mutation_updateOrder E ctx i input s)) i =
              result_order (Mutation_updateOrder E ctx i input s))
       \<and> result_order (Mutation_updateOrder E ctx i input s) \<noteq> None"
proof -
  note run = updateOrder_quantity [OF assms, of E]
  from result_order_order [OF run(1)]
  have new: "result_order (Mutation_updateOrder E ctx i input s) =
      Some (merge_order (now E) ord
             (case getListingById s (listingId ord) of
                None \<Rightarrow> input
              | Some l \<Rightarrow> input\<lparr>upd_totalPrice := Some (multiply E (price l) q)\<rparr>))" .
  have found: "\<forall>l. getListingById s (listingId ord) = Some l \<longrightarrow>
           map_option totalPrice (result_order (Mutation_updateOrder E ctx i input s)) =
             Some (multiply E (price l) q)"
    by (simp add: new merge_order_def)
  have orphan: "getListingById s (listingId ord) = None \<longrightarrow>
           map_option totalPrice (result_order (Mutation_updateOrder E ctx i input s)) =
             Some (case upd_totalPrice input of None \<Rightarrow> totalPrice ord | Some v \<Rightarrow> v)"
    by (simp add: new merge_order_def)
  have quantity: "map_option quantity (result_order (Mutation_updateOrder E ctx i input s)) = Some q"
    using assms(4)
    by (cases "getListingById s (listingId ord)") (simp_all add: new merge_order_def)
  have stored: "upd_order_id input = None \<or> upd_order_id input = Some i \<longrightarrow>
            getOrderById (snd (Mutation_updateOrder E ctx i input s)) i =
              result_order (Mutation_updateOrder E ctx i input s)"
    using run(2) by simp
  have some: "result_order (Mutation_updateOrder E ctx i input s) \<noteq> None"
    by (simp add: new)
  show ?thesis
    by (intro conjI found orphan quantity stored some)
qed

lemma orphan_store_listing: "getListingById orphan_store 1 = None"
  by (simp add: orphan_store_def run_defs requireAuth_Some [OF john_ctx_user]
      requireOwnership_Some [OF john_ctx_user])

lemma orphan_store_order:
  "getOrderById orphan_store 1 = Some (sample_order d999_99 1699999999000)"
  by (simp add: orphan_store_def run_defs requireAuth_Some [OF john_ctx_user]
      requireOwnership_Some [OF john_ctx_user])

theorem updateOrder_orphan_counterexample:
  "map_option listingId (getOrderById orphan_store 1) = Some 1
   \<and> map_option totalPrice (getOrderById orphan_store 1) = Some d999_99
   \<and> getListingById orphan_store 1 = None
   \<and> map_option quantity
       (result_order (Mutation_updateOrder demo_env jane_ctx 1 quantity_three orphan_store))
       = Some 3
   \<and> map_option totalPrice
       (result_order (Mutation_updateOrder demo_env jane_ctx 1 quantity_three orphan_store))
       = Some d999_99"
  by (simp add: orphan_store_def run_defs requireAuth_Some [OF john_ctx_user]
      requireOwnership_Some [OF john_ctx_user] requireAuth_Some [OF jane_ctx_user]
      requireOwnership_Some [OF jane_ctx_user])

lemma repriced_store_listing:
  "map_option price (getListingById repriced_store 1) = Some d500"
  by (simp add: repriced_store_def run_defs requireAuth_Some [OF john_ctx_user]
      requireOwnership_Some [OF john_ctx_user])

lemma repriced_store_order:
  "getOrderById repriced_store 1 = Some (sample_order d999_99 1699999999000)"
  by (simp add: repriced_store_def run_defs requireAuth_Some [OF john_ctx_user]
      requireOwnership_Some [OF john_ctx_user])

theorem updateOrder_total_price_witness:
  "ctx_user jane_ctx = Some jane_claims
   \<and> map_option order_userId (getOrderById repriced_store 1) = Some (payload_id jane_claims)
   \<and> map_option totalPrice (getOrderById repriced_store 1) = Some d999_99
   \<and> upd_quantity quantity_three = Some 3
   \<and> map_option price (getListingById repriced_store 1) = Some d500
   \<and> map_option totalPrice
       (result_order (Mutation_updateOrder demo_env jane_ctx 1 quantity_three repriced_store))
       = Some d1500
   \<and> getListingById orphan_store 1 = None
   \<and> map_option totalPrice
       (result_order (Mutation_updateOrder demo_env jane_ctx 1 quantity_three orphan_store))
       = Some d999_99"
proof -
  have own: "order_userId (sample_order d999_99 1699999999000) = payload_id jane_claims"
    and lid: "listingId (sample_order d999_99 1699999999000) = 1"
    and tot: "totalPrice (sample_order d999_99 1699999999000) = d999_99"
    by (simp_all add: sample_order_def jane_claims_def)
  have q: "upd_quantity quantity_three = Some 3"
    and none: "upd_totalPrice quantity_three = None"
    by (simp_all add: quantity_three_def no_order_updates_def)
  have t: "multiply demo_env d500 3 = d1500"
    by (simp add: demo_env_def sample_products)
  obtain l where l: "getListingById repriced_store 1 = Some l" and pl: "price l = d500"
    using repriced_store_listing by auto
  note a = updateOrder_total_price [OF jane_ctx_user repriced_store_order own q, of demo_env]
  note b = updateOrder_total_price [OF jane_ctx_user orphan_store_order own q, of demo_env]
  from a b own lid tot q none t l pl jane_ctx_user show ?thesis
    by (simp add: repriced_store_order orphan_store_listing)
qed

subsection \<open>Pagination of the orders query\<close>

lemma ceil_div_pos:
  assumes "0 < d"
  shows "ceil_div n d = Finite \<lceil>real_of_int n / real_of_int d\<rceil>"
  using assms by (simp add: ceil_div_def ceiling_divide_eq_div)

lemma slice_forward:
  assumes "0 \<le> off" and "0 \<le> cnt"
  shows "slice xs off (off + cnt) = take (nat cnt) (drop (nat off) xs)"
proof (cases "off < int (length xs)")
  case True
  with assms have "slice xs off (off + cnt) =
      take (nat (min (off + cnt) (int (length xs)) - off)) (drop (nat off) xs)"
    by (simp add: slice_def Let_def min_def)
  also have "\<dots> = take (nat cnt) (drop (nat off) xs)"
  proof (cases "off + cnt \<le> int (length xs)")
    case True
    then show ?thesis by (simp add: min_def)
  next
    case False
    with assms \<open>off < int (length xs)\<close>
    have "length (drop (nat off) xs) \<le> nat (min (off + cnt) (int (length xs)) - off)"
      and "length (drop (nat off) xs) \<le> nat cnt"
      by (simp_all add: min_def)
    then show ?thesis by simp
  qed
  finally show ?thesis .
next
  case False
  with assms show ?thesis
    by (simp add: slice_def Let_def min_def)
qed

lemma beyond_last_page:
  assumes "1 \<le> L" and "\<lceil>real_of_int n / real_of_int L\<rceil> < p"
  shows "n \<le> (p - 1) * L"
proof -
  from assms(2) have "\<lceil>real_of_int n / real_of_int L\<rceil> \<le> p - 1" by simp
  then have "real_of_int n / real_of_int L \<le> real_of_int (p - 1)"
    by (simp only: ceiling_le_iff)
  with assms(1) have "real_of_int n \<le> real_of_int (p - 1) * real_of_int L"
    by (simp add: pos_divide_le_eq)
  then have "real_of_int n \<le> real_of_int ((p - 1) * L)" by simp
  then show ?thesis by (simp only: of_int_le_iff)
qed

lemma getOrders_page:
  assumes "1 \<le> limit pg" and "1 \<le> page pg"
  shows "getOrders s flt pg =
     \<lparr>page_orders =
        take (nat (limit pg)) (drop (nat ((page pg - 1) * limit pg))
          (filteredOrders flt (orders s))),
      page_pagination =
        \<lparr>total = int (length (filteredOrders flt (orders s))),
         pages = Finite \<lceil>real (length (filteredOrders flt (orders s)))
                          / real_of_int (limit pg)\<rceil>,
         currentPage = page pg,
         hasNextPage = (page pg < \<lceil>real (length (filteredOrders flt (orders s)))
                                   / real_of_int (limit pg)\<rceil>),
         hasPreviousPage = (1 < page pg)\<rparr>\<rparr>"
proof -
  from assms have "0 \<le> (page pg - 1) * limit pg" and "0 \<le> limit pg" and "0 < limit pg"
    by simp_all
  then show ?thesis
    by (simp add: getOrders_def Let_def slice_forward ceil_div_pos)
qed

lemma Query_orders_own:
  assumes "ctx_user ctx = Some u"
    and "(case flt of None \<Rightarrow> None | Some f \<Rightarrow> flt_userId f) = given"
    and "\<not> truthy_int given \<or> given = Some (payload_id u)"
  shows "Query_orders ctx flt pagination s =
    (Inr (OrdersResult
       (getOrders s
          \<lparr>flt_userId = Some (payload_id u),
           flt_status = (case flt of None \<Rightarrow> None | Some f \<Rightarrow> flt_status f)\<rparr>
          (case pagination of None \<Rightarrow> \<lparr>page = 1, limit = 10\<rparr> | Some p \<Rightarrow> p))), s)"
  using assms
  by (auto simp add: Query_orders_def requireAuth_Some Let_def)

text \<open>
  Claim C7.  For an authenticated caller asking for their own orders with a pagination
  input of limit \<open>L \<ge> 1\<close> and page \<open>p \<ge> 1\<close>, where \<open>filtered\<close> is the list of orders
  that pass the filter and \<open>N\<close> its length: the query returns \<open>total = N\<close>,
  \<open>pages = \<lceil>N / L\<rceil>\<close>, \<open>currentPage = p\<close>, \<open>hasNextPage = (p < pages)\<close>,
  \<open>hasPreviousPage = (p > 1)\<close> and the at most \<open>L\<close> orders from offset \<open>(p - 1) * L\<close>
  on; a page beyond \<open>pages\<close> gives the empty list with \<open>hasNextPage = false\<close>, and no
  error.
\<close>

theorem orders_pagination:
  assumes "ctx_user ctx = Some u"
    and "(case flt of None \<Rightarrow> None | Some f \<Rightarrow> flt_userId f) = given"
    and "\<not> truthy_int given \<or> given = Some (payload_id u)"
    and "1 \<le> limit pg" and "1 \<le> page pg"
    and "filtered = filteredOrders
           \<lparr>flt_userId = Some (payload_id u),
            flt_status = (case flt of None \<Rightarrow> None | Some f \<Rightarrow> flt_status f)\<rparr> (orders s)"
  shows "Query_orders ctx flt (Some pg) s =
           (Inr (OrdersResult
              \<lparr>page_orders =
                 take (nat (limit pg)) (drop (nat ((page pg - 1) * limit pg)) filtered),
               page_pagination =
                 \<lparr>total = int (length filtered),
                  pages = Finite \<lceil>real (length filtered) / real_of_int (limit pg)\<rceil>,
                  currentPage = page pg,
                  hasNextPage =
                    (page pg < \<lceil>real (length filtered) / real_of_int (limit pg)\<rceil>),
                  hasPreviousPage = (1 < page pg)\<rparr>\<rparr>), s)
       \<and> int (length (take (nat (limit pg))
                  (drop (nat ((page pg - 1) * limit pg)) filtered))) \<le> limit pg
       \<and> (\<lceil>real (length filtered) / real_of_int (limit pg)\<rceil> < page pg \<longrightarrow>
            take (nat (limit pg)) (drop (nat ((page pg - 1) * limit pg)) filtered) = []
            \<and> \<not> page pg < \<lceil>real (length filtered) / real_of_int (limit pg)\<rceil>)"
proof -
  have "\<lceil>real (length filtered) / real_of_int (limit pg)\<rceil> < page pg \<Longrightarrow>
      drop (nat ((page pg - 1) * limit pg)) filtered = []"
    using beyond_last_page [of "limit pg" "int (length filtered)" "page pg"] assms(4)
    by simp
  moreover have "int (length (take (nat (limit pg))
                  (drop (nat ((page pg - 1) * limit pg)) filtered))) \<le> limit pg"
    using assms(4) by simp
  ultimately show ?thesis
    using Query_orders_own [OF assms(1-3), of "Some pg" s] getOrders_page [OF assms(4,5)]
    by (simp add: assms(6))
qed

lemma busy_store_jane:
  "filteredOrders \<lparr>flt_userId = Some (payload_id jane_claims), flt_status = None\<rparr>
     (orders busy_store) =
   [sample_order d450 0, (sample_order d450 0)\<lparr>order_id := 2\<rparr>,
    (sample_order d450 0)\<lparr>order_id := 4\<rparr>]"
  by (simp add: filteredOrders_def busy_store_def jane_claims_def sample_order_def)

theorem orders_pagination_witness:
  "ctx_user jane_ctx = Some jane_claims
   \<and> Query_orders jane_ctx None (Some \<lparr>page = 2, limit = 2\<rparr>) busy_store =
       (Inr (OrdersResult
          \<lparr>page_orders = [(sample_order d450 0)\<lparr>order_id := 4\<rparr>],
           page_pagination =
             \<lparr>total = 3, pages = Finite 2, currentPage = 2,
              hasNextPage = False, hasPreviousPage = True\<rparr>\<rparr>), busy_store)
   \<and> Query_orders jane_ctx None (Some \<lparr>page = 3, limit = 2\<rparr>) busy_store =
       (Inr (OrdersResult
          \<lparr>page_orders = [],
           page_pagination =
             \<lparr>total = 3, pages = Finite 2, currentPage = 3,
              hasNextPage = False, hasPreviousPage = True\<rparr>\<rparr>), busy_store)"
proof -
  have none: "(case None :: order_filter option of None \<Rightarrow> None | Some f \<Rightarrow> flt_userId f) = None"
    by simp
  have own: "\<not> truthy_int None \<or> None = Some (payload_id jane_claims)"
    by simp
  have two: "\<lceil>real (3::nat) / real_of_int 2\<rceil> = 2"
    by (simp add: ceiling_divide_eq_div [of 3 2, simplified])
  note a = orders_pagination [OF jane_ctx_user none own, of "\<lparr>page = 2, limit = 2\<rparr>" _ busy_store]
  note b = orders_pagination [OF jane_ctx_user none own, of "\<lparr>page = 3, limit = 2\<rparr>" _ busy_store]
  have f: "[sample_order d450 0, (sample_order d450 0)\<lparr>order_id := 2\<rparr>,
             (sample_order d450 0)\<lparr>order_id := 4\<rparr>] =
      filteredOrders
        \<lparr>flt_userId = Some (payload_id jane_claims),
         flt_status = (case None :: order_filter option of
                         None \<Rightarrow> None | Some f \<Rightarrow> flt_status f)\<rparr> (orders busy_store)"
    by (simp add: busy_store_jane)
  from a [OF _ _ f] b [OF _ _ f] two jane_ctx_user
  show ?thesis by simp
qed

subsection \<open>Returned user records\<close>

lemma check_result:
  "fst (check g s k) = Inr r \<Longrightarrow> \<exists>v. g = Inr v \<and> fst (k v) = Inr r"
  by (cases g) simp_all

lemma Query_user_hides:
  "fst (Query_user i s) = Inr (UserResult u) \<Longrightarrow> password u = None"
  by (auto simp: Query_user_def userWithoutPassword_def split: option.splits)

lemma createUser_hides:
  assumes "fst (Mutation_createUser E input s) = Inr (UserResult u)"
  shows "password u = None"
proof -
  from assms obtain v where "u = userWithoutPassword v"
    unfolding Mutation_createUser_def
    by (auto dest!: check_result simp: Let_def split: option.splits prod.splits)
  then show ?thesis by (simp add: userWithoutPassword_def)
qed

lemma updateUser_hides:
  assumes "fst (Mutation_updateUser E ctx i input s) = Inr (UserResult u)"
  shows "password u = None"
proof -
  from assms obtain v where "u = userWithoutPassword v"
    unfolding Mutation_updateUser_def
    by (auto dest!: check_result simp: Let_def split: option.splits prod.splits if_splits)
  then show ?thesis by (simp add: userWithoutPassword_def)
qed

lemma login_hides:
  assumes "fst (Mutation_login E input s) = Inr (AuthResult t u)"
  shows "password u = None"
proof -
  from assms obtain v where "u = userWithoutPassword v"
    unfolding Mutation_login_def
    by (auto dest!: check_result simp: Let_def split: option.splits prod.splits if_splits)
  then show ?thesis by (simp add: userWithoutPassword_def)
qed

lemma nested_user_hides:
  "Listing_user s l = Some u \<Longrightarrow> password u = None"
  "Order_user s ord = Some u \<Longrightarrow> password u = None"
  by (auto simp: Listing_user_def Order_user_def userWithoutPassword_def split: option.splits)

text \<open>
  Claim C6.  Whatever the inputs and the store: a user record returned by the \<open>user\<close>
  query, by \<open>createUser\<close>, by \<open>updateUser\<close> or by \<open>login\<close>, and the user resolved for
  the \<open>user\<close> field of a listing or of an order, has no \<open>password\<close> property.
\<close>

theorem password_never_returned:
  "(\<forall>u. fst (Query_user i s) = Inr (UserResult u) \<longrightarrow> password u = None)
   \<and> (\<forall>u. fst (Mutation_createUser E cin s) = Inr (UserResult u) \<longrightarrow> password u = None)
   \<and> (\<forall>u. fst (Mutation_updateUser E ctx j uin s) = Inr (UserResult u) \<longrightarrow> password u = None)
   \<and> (\<forall>t u. fst (Mutation_login E lin s) = Inr (AuthResult t u) \<longrightarrow> password u = None)
   \<and> (\<forall>u. Listing_user s l = Some u \<longrightarrow> password u = None)
   \<and> (\<forall>u. Order_user s ord = Some u \<longrightarrow> password u = None)"
  using Query_user_hides [of i s] createUser_hides [of E cin s]
    updateUser_hides [of E ctx j uin s] login_hides [of E lin s]
    nested_user_hides (1) [of s l] nested_user_hides (2) [of s ord]
  by blast

lemmas user_run_defs =
  Query_user_def Mutation_createUser_def Mutation_updateUser_def Mutation_login_def
  Listing_user_def Order_user_def getUserById_def getUserByEmail_def
  dataStore_createUser_def dataStore_updateUser_def merge_user_def addSession_def
  validateRequired_string_def validateUsername_def validateEmail_def validatePassword_def
  sample_strings
  new_user_input_def jane_login_def rename_input_def no_user_updates_def
  sample_store_def DataStore_constructor_def iphone_def sample_order_def
  john_def jane_def demo_env_def jane_claims_def Let_def

lemma sample_user_query:
  "fst (Query_user 1 sample_store) = Inr (UserResult (userWithoutPassword john))"
  by (simp add: user_run_defs)

lemma sample_createUser:
  "fst (Mutation_createUser demo_env new_user_input sample_store) =
     Inr (UserResult (userWithoutPassword
       \<lparr>user_id = 3, username = ''testuser123'', email = ''testuser123@example.com'',
        password = Some ''hash:password123'',
        user_createdAt = Some 1700000000000, user_updatedAt = Some 1700000000000\<rparr>))"
  by (simp add: user_run_defs)

lemma sample_updateUser:
  "fst (Mutation_updateUser demo_env jane_ctx 2 rename_input sample_store) =
     Inr (UserResult (userWithoutPassword
       (jane\<lparr>username := ''jane_s'', user_updatedAt := Some 1700000000000\<rparr>)))"
  by (simp add: user_run_defs requireOwnership_Some [OF jane_ctx_user])

lemma sample_login:
  "fst (Mutation_login demo_env jane_login sample_store) =
     Inr (AuthResult (generateToken demo_env jane) (userWithoutPassword jane))"
  by (simp add: user_run_defs)

lemma sample_nested:
  "Listing_user sample_store (iphone d999_99 1699999999000) =
     Some (userWithoutPassword john)"
  "Order_user sample_store (sample_order d999_99 1699999999000) =
     Some (userWithoutPassword jane)"
  by (simp_all add: user_run_defs)

theorem password_never_returned_witness:
  "password john = Some sample_hash \<and> password jane = Some sample_hash
   \<and> fst (Query_user 1 sample_store) = Inr (UserResult (userWithoutPassword john))
   \<and> fst (Mutation_createUser demo_env new_user_input sample_store) =
       Inr (UserResult (userWithoutPassword
         \<lparr>user_id = 3, username = ''testuser123'', email = ''testuser123@example.com'',
          password = Some ''hash:password123'',
          user_createdAt = Some 1700000000000, user_updatedAt = Some 1700000000000\<rparr>))
   \<and> fst (Mutation_updateUser demo_env jane_ctx 2 rename_input sample_store) =
       Inr (UserResult (userWithoutPassword
         (jane\<lparr>username := ''jane_s'', user_updatedAt := Some 1700000000000\<rparr>)))
   \<and> fst (Mutation_login demo_env jane_login sample_store) =
       Inr (AuthResult (generateToken demo_env jane) (userWithoutPassword jane))
   \<and> Listing_user sample_store (iphone d999_99 1699999999000) =
       Some (userWithoutPassword john)
   \<and> Order_user sample_store (sample_order d999_99 1699999999000) =
       Some (userWithoutPassword jane)
   \<and> password (userWithoutPassword john) = None
   \<and> password (userWithoutPassword jane) = None
   \<and> password (userWithoutPassword
         \<lparr>user_id = 3, username = ''testuser123'', email = ''testuser123@example.com'',
          password = Some ''hash:password123'',
          user_createdAt = Some 1700000000000, user_updatedAt = Some 1700000000000\<rparr>) = None
   \<and> password (userWithoutPassword
         (jane\<lparr>username := ''jane_s'', user_updatedAt := Some 1700000000000\<rparr>)) = None"
proof -
  have stored: "password john = Some sample_hash" "password jane = Some sample_hash"
    by (simp_all add: john_def jane_def)
  note hidden = password_never_returned
    [of 1 sample_store demo_env new_user_input jane_ctx 2 rename_input jane_login
      "iphone d999_99 1699999999000" "sample_order d999_99 1699999999000"]
  from hidden sample_user_query sample_createUser sample_updateUser sample_login
    sample_nested stored
  show ?thesis by simp
qed

subsection \<open>Login\<close>

lemma login_validated:
  assumes "li_email input = Some e" and "li_password input = Some p"
    and "p \<noteq> []" and "emailRegex_test e"
  shows "Mutation_login E input s =
     (case getUserByEmail s e of
        None \<Rightarrow> (Inl invalid_credentials, s)
      | Some u \<Rightarrow>
          (case password u of
             None \<Rightarrow> (Inl (Error ''Illegal arguments: string, undefined''), s)
           | Some hashed \<Rightarrow>
               if \<not> bcrypt_compare E p hashed then (Inl invalid_credentials, s)
               else (Inr (AuthResult (generateToken E u) (userWithoutPassword u)),
                     addSession (generateToken E u) s)))"
proof -
  from assms(4) have "e \<noteq> []"
    by (rule emailRegex_test_nonempty)
  with assms show ?thesis
    by (simp add: Mutation_login_def validateRequired_string_def validateEmail_def Let_def
        split: option.splits)
qed

lemma token_claims:
  "jwt_verify (generateToken E u) (JWT_SECRET E) (now E) =
     Some \<lparr>payload_id = user_id u, payload_email = email u, payload_username = username u,
           payload_iat = now E div 1000, payload_exp = now E div 1000 + 86400\<rparr>"
  by (simp add: generateToken_def jwt_sign_def)

lemma login_rejected_early:
  assumes "li_email input = None \<or> li_email input = Some [] \<or> li_password input = None
           \<or> li_password input = Some [] \<or> \<not> emailRegex_test (the (li_email input))"
  shows "\<exists>m d. Mutation_login E input s = (Inl (GraphQLError m VALIDATION_ERROR d), s)"
  using assms
  by (auto simp: Mutation_login_def validateRequired_string_def validateEmail_def
      validation_error_def check_def split: sum.splits)

text \<open>
  Claim C8, amended.  For a login input that passes input validation (a well-formed
  e-mail address and a non-empty password): when the address is that of a stored user
  and the password matches the stored hash, \<open>login\<close> records and returns a token whose
  verified claims \<open>id\<close>, \<open>email\<close> and \<open>username\<close> are the stored user's, expiring 24
  hours after issue, together with the user record without password; when the address
  is unknown, and when it is known and the password does not match, \<open>login\<close> throws one
  and the same \<open>AUTHENTICATION_ERROR\<close> and the store is as before.  An input that fails
  validation is answered by a \<open>VALIDATION_ERROR\<close>.
\<close>

theorem login_contract:
  assumes "li_email input = Some e" and "li_password input = Some p"
    and "p \<noteq> []" and "emailRegex_test e"
  shows "(\<forall>u h. getUserByEmail s e = Some u \<and> password u = Some h \<and> bcrypt_compare E p h \<longrightarrow>
            Mutation_login E input s =
              (Inr (AuthResult (generateToken E u) (userWithoutPassword u)),
               addSession (generateToken E u) s)
            \<and> jwt_verify (generateToken E u) (JWT_SECRET E) (now E) =
                Some \<lparr>payload_id = user_id u, payload_email = email u,
                      payload_username = username u,
                      payload_iat = now E div 1000,
                      payload_exp = now E div 1000 + 86400\<rparr>)
       \<and> (getUserByEmail s e = None \<longrightarrow>
            Mutation_login E input s = (Inl invalid_credentials, s))
       \<and> (\<forall>u h. getUserByEmail s e = Some u \<and> password u = Some h
                \<and> \<not> bcrypt_compare E p h \<longrightarrow>
            Mutation_login E input s = (Inl invalid_credentials, s))
       \<and> code invalid_credentials = AUTHENTICATION_ERROR
       \<and> (\<forall>input'. li_email input' = None \<or> li_email input' = Some []
              \<or> li_password input' = None \<or> li_password input' = Some []
              \<or> \<not> emailRegex_test (the (li_email input')) \<longrightarrow>
            (\<exists>m d. Mutation_login E input' s = (Inl (GraphQLError m VALIDATION_ERROR d), s)))"
  using login_validated [OF assms, of E s] token_claims [of E] login_rejected_early [of _ E s]
  by (simp add: invalid_credentials_def)

lemmas login_run_defs =
  Mutation_login_def getUserByEmail_def validateRequired_string_def validateEmail_def
  sample_strings validation_error_def
  sample_store_def DataStore_constructor_def john_def jane_def demo_env_def Let_def
  unknown_login_def wrong_password_login_def empty_password_login_def malformed_login_def
  jane_login_def

theorem login_validation_counterexample:
  "getUserByEmail sample_store ''jane@example.com'' = Some jane
   \<and> Mutation_login demo_env empty_password_login sample_store =
       (Inl (GraphQLError ''password is required'' VALIDATION_ERROR
               (FieldMessage ''password'' ''password is required'')), sample_store)
   \<and> getUserByEmail sample_store ''nobody'' = None
   \<and> Mutation_login demo_env malformed_login sample_store =
       (Inl (GraphQLError ''Invalid email format'' VALIDATION_ERROR
               (FieldMessage ''email'' ''Email format is invalid'')), sample_store)"
  by (simp add: login_run_defs)

theorem login_contract_witness:
  "getUserByEmail sample_store ''jane@example.com'' = Some jane
   \<and> password jane = Some sample_hash
   \<and> bcrypt_compare demo_env ''password'' sample_hash
   \<and> Mutation_login demo_env jane_login sample_store =
       (Inr (AuthResult (generateToken demo_env jane) (userWithoutPassword jane)),
        addSession (generateToken demo_env jane) sample_store)
   \<and> jwt_verify (generateToken demo_env jane) (JWT_SECRET demo_env) (now demo_env) =
       Some jane_claims
   \<and> getUserByEmail sample_store ''nobody@example.com'' = None
   \<and> Mutation_login demo_env unknown_login sample_store =
       (Inl invalid_credentials, sample_store)
   \<and> \<not> bcrypt_compare demo_env ''wrongpassword'' sample_hash
   \<and> Mutation_login demo_env wrong_password_login sample_store =
       (Inl invalid_credentials, sample_store)
   \<and> li_password empty_password_login = Some []
   \<and> fst (Mutation_login demo_env empty_password_login sample_store) =
       Inl (GraphQLError ''password is required'' VALIDATION_ERROR
              (FieldMessage ''password'' ''password is required''))
   \<and> li_email nbsp_login = Some nbsp_address
   \<and> \<not> emailRegex_test nbsp_address
   \<and> fst (Mutation_login demo_env nbsp_login sample_store) =
       Inl (GraphQLError ''Invalid email format'' VALIDATION_ERROR
              (FieldMessage ''email'' ''Email format is invalid''))"
proof -
  have known: "getUserByEmail sample_store ''jane@example.com'' = Some jane"
    and unknown: "getUserByEmail sample_store ''nobody@example.com'' = None"
    by (simp_all add: getUserByEmail_def sample_store_def DataStore_constructor_def
        john_def jane_def)
  have stored: "password jane = Some sample_hash"
    by (simp add: jane_def)
  have accepts: "bcrypt_compare demo_env ''password'' sample_hash"
    and rejects: "\<not> bcrypt_compare demo_env ''wrongpassword'' sample_hash"
    by (simp_all add: demo_env_def sample_hash_def)
  have shape: "emailRegex_test ''jane@example.com''" "emailRegex_test ''nobody@example.com''"
    by (simp_all add: sample_strings)
  have claims: "\<lparr>payload_id = user_id jane, payload_email = email jane,
        payload_username = username jane, payload_iat = now demo_env div 1000,
        payload_exp = now demo_env div 1000 + 86400\<rparr> = jane_claims"
    by (simp add: jane_def jane_claims_def demo_env_def)
  have empty: "li_password empty_password_login = Some []"
    by (simp add: empty_password_login_def)
  note a = login_contract [of jane_login "''jane@example.com''" "''password''" sample_store
      demo_env, OF _ _ _ shape(1)]
  note b = login_contract [of unknown_login "''nobody@example.com''" "''password''"
      sample_store demo_env, OF _ _ _ shape(2)]
  note c = login_contract [of wrong_password_login "''jane@example.com''" "''wrongpassword''"
      sample_store demo_env, OF _ _ _ shape(1)]
  have d: "fst (Mutation_login demo_env empty_password_login sample_store) =
       Inl (GraphQLError ''password is required'' VALIDATION_ERROR
              (FieldMessage ''password'' ''password is required''))"
    by (simp add: login_run_defs)
  have e: "li_email nbsp_login = Some nbsp_address" "\<not> emailRegex_test nbsp_address"
    "fst (Mutation_login demo_env nbsp_login sample_store) =
       Inl (GraphQLError ''Invalid email format'' VALIDATION_ERROR
              (FieldMessage ''email'' ''Email format is invalid''))"
    by (simp_all add: login_run_defs nbsp_login_def)
  from a b c d e known unknown stored accepts rejects claims empty show ?thesis
    by (simp add: jane_login_def unknown_login_def wrong_password_login_def)
qed

subsection \<open>The session set\<close>

text \<open>No lookup of the store reads the session set.\<close>

lemma lookups_ignore_sessions [simp]:
  "getUserById (s\<lparr>sessions := X\<rparr>) = getUserById s"
  "getUserByEmail (s\<lparr>sessions := X\<rparr>) = getUserByEmail s"
  "getListingById (s\<lparr>sessions := X\<rparr>) = getListingById s"
  "getOrderById (s\<lparr>sessions := X\<rparr>) = getOrderById s"
  "getOrders (s\<lparr>sessions := X\<rparr>) = getOrders s"
  by (simp_all add: fun_eq_iff getUserById_def getUserByEmail_def getListingById_def
      getOrderById_def getOrders_def)

lemma same_data_check:
  assumes "\<And>v. same_data (k v) (k' v)"
  shows "same_data (check g (s\<lparr>sessions := X\<rparr>) k) (check g s k')"
  using assms by (cases g) (simp_all add: same_data_def)

lemma same_data_unchanged [simp]: "same_data (r, s\<lparr>sessions := X\<rparr>) (r, s)"
  by (simp add: same_data_def)

lemma sessions_queries:
  "same_data (Query_user i (s\<lparr>sessions := X\<rparr>)) (Query_user i s)"
  "same_data (Query_listing i (s\<lparr>sessions := X\<rparr>)) (Query_listing i s)"
  "same_data (Query_order ctx i (s\<lparr>sessions := X\<rparr>)) (Query_order ctx i s)"
  "same_data (Query_orders ctx flt pg (s\<lparr>sessions := X\<rparr>)) (Query_orders ctx flt pg s)"
  by (auto simp: Query_user_def Query_listing_def Query_order_def Query_orders_def Let_def
      intro!: same_data_check split: option.splits)

lemma sessions_users:
  "same_data (Mutation_createUser E cin (s\<lparr>sessions := X\<rparr>)) (Mutation_createUser E cin s)"
  "same_data (Mutation_updateUser E ctx i uin (s\<lparr>sessions := X\<rparr>))
     (Mutation_updateUser E ctx i uin s)"
  "same_data (Mutation_deleteUser ctx i (s\<lparr>sessions := X\<rparr>)) (Mutation_deleteUser ctx i s)"
  by (auto simp: Mutation_createUser_def Mutation_updateUser_def Mutation_deleteUser_def
      dataStore_createUser_def dataStore_updateUser_def dataStore_deleteUser_def Let_def
      same_data_def
      intro!: same_data_check [unfolded same_data_def] split: option.splits)

lemma sessions_login:
  "same_data (Mutation_login E lin (s\<lparr>sessions := X\<rparr>)) (Mutation_login E lin s)"
  "same_data (Mutation_logout ctx (s\<lparr>sessions := X\<rparr>)) (Mutation_logout ctx s)"
  by (auto simp: Mutation_login_def Mutation_logout_def addSession_def removeSession_def
      Let_def same_data_def
      intro!: same_data_check [unfolded same_data_def] split: option.splits)

lemma sessions_listings:
  "same_data (Mutation_createListing E ctx lin (s\<lparr>sessions := X\<rparr>))
     (Mutation_createListing E ctx lin s)"
  "same_data (Mutation_updateListing E ctx i lup (s\<lparr>sessions := X\<rparr>))
     (Mutation_updateListing E ctx i lup s)"
  "same_data (Mutation_deleteListing ctx i (s\<lparr>sessions := X\<rparr>)) (Mutation_deleteListing ctx i s)"
  by (auto simp: Mutation_createListing_def Mutation_updateListing_def
      Mutation_deleteListing_def dataStore_createListing_def dataStore_updateListing_def
      dataStore_deleteListing_def Let_def same_data_def
      intro!: same_data_check [unfolded same_data_def] split: option.splits)

lemma sessions_orders:
  "same_data (Mutation_createOrder E ctx oin (s\<lparr>sessions := X\<rparr>))
     (Mutation_createOrder E ctx oin s)"
  "same_data (Mutation_updateOrder E ctx i oup (s\<lparr>sessions := X\<rparr>))
     (Mutation_updateOrder E ctx i oup s)"
  "same_data (Mutation_deleteOrder ctx i (s\<lparr>sessions := X\<rparr>)) (Mutation_deleteOrder ctx i s)"
  "same_data (Mutation_cancelOrder E ctx i r (s\<lparr>sessions := X\<rparr>))
     (Mutation_cancelOrder E ctx i r s)"
  "same_data (Mutation_updateOrderStatus E ctx i st (s\<lparr>sessions := X\<rparr>))
     (Mutation_updateOrderStatus E ctx i st s)"
  by (auto simp: Mutation_createOrder_def Mutation_updateOrder_def Mutation_deleteOrder_def
      Mutation_cancelOrder_def Mutation_updateOrderStatus_def
      dataStore_createOrder_def dataStore_updateOrder_def dataStore_deleteOrder_def
      dataStore_cancelOrder_def dataStore_updateOrderStatus_def Let_def same_data_def
      intro!: same_data_check [unfolded same_data_def] split: option.splits)

lemma sessions_resolvers:
  "same_data (resolvers E ctx op (s\<lparr>sessions := X\<rparr>)) (resolvers E ctx op s)"
  by (cases op)
    (simp_all add: sessions_queries sessions_users sessions_login sessions_listings
      sessions_orders)

lemma sessions_serve:
  "same_data (serve E a op (s\<lparr>sessions := X\<rparr>)) (serve E a op s)"
  by (simp add: serve_def sessions_resolvers)

lemma issued_token_verifies:
  assumes "JWT_SECRET E = JWT_SECRET E0"
  shows "ctx_user (createContext E (Some (generateToken E0 u))) =
           (if now E div 1000 < now E0 div 1000 + 86400
            then Some \<lparr>payload_id = user_id u, payload_email = email u,
                       payload_username = username u,
                       payload_iat = now E0 div 1000,
                       payload_exp = now E0 div 1000 + 86400\<rparr>
            else None)"
  using assms by (simp add: createContext_def generateToken_def jwt_sign_def)

lemma logout_removes:
  assumes "JWT_SECRET E = JWT_SECRET E0" and "now E div 1000 < now E0 div 1000 + 86400"
  shows "serve E (Some (generateToken E0 u)) Logout s =
           (Inr (Message ''Logout successful''),
            s\<lparr>sessions := sessions s - {generateToken E0 u}\<rparr>)"
proof -
  have "ctx_token (createContext E (Some (generateToken E0 u))) = Some (generateToken E0 u)"
    by (simp add: createContext_def)
  moreover have "generateToken E0 u \<noteq> Opaque []"
    by (simp add: generateToken_def jwt_sign_def)
  ultimately show ?thesis
    using issued_token_verifies [OF assms(1), of u] assms(2)
    by (simp add: serve_def Mutation_logout_def requireAuth_def removeSession_def)
qed

text \<open>
  Claim C9.  The outcome of a request does not depend on the session set: for every
  bearer credential, every operation and two stores that differ only in the session
  set, the results are equal and the stores afterwards differ only in the session set.
  In particular, after a logout has removed a token from the session set, every request
  is answered as it would have been without the logout, and the token yields its
  identity for as long as its own 24 hours have not passed, and no identity from then
  on.
\<close>

theorem session_independence:
  assumes "JWT_SECRET E = JWT_SECRET E0" and "now E div 1000 < now E0 div 1000 + 86400"
  shows "same_data (serve E' a op (s\<lparr>sessions := X\<rparr>)) (serve E' a op s)
       \<and> fst (serve E (Some (generateToken E0 u)) Logout s) = Inr (Message ''Logout successful'')
       \<and> generateToken E0 u \<notin> sessions (snd (serve E (Some (generateToken E0 u)) Logout s))
       \<and> same_data (serve E' a op (snd (serve E (Some (generateToken E0 u)) Logout s)))
            (serve E' a op s)
       \<and> (JWT_SECRET E' = JWT_SECRET E0 \<and> now E' div 1000 < now E0 div 1000 + 86400 \<longrightarrow>
            requireAuth (createContext E' (Some (generateToken E0 u))) =
              Inr \<lparr>payload_id = user_id u, payload_email = email u,
                   payload_username = username u,
                   payload_iat = now E0 div 1000,
                   payload_exp = now E0 div 1000 + 86400\<rparr>)
       \<and> (JWT_SECRET E' = JWT_SECRET E0 \<and> now E0 div 1000 + 86400 \<le> now E' div 1000 \<longrightarrow>
            ctx_user (createContext E' (Some (generateToken E0 u))) = None)"
  by (simp add: sessions_serve logout_removes [OF assms] issued_token_verifies requireAuth_def)

lemmas session_run_defs =
  serve_def createContext_def generateToken_def jwt_sign_def
  Mutation_login_def Mutation_logout_def Query_order_def requireAuth_def
  addSession_def removeSession_def getUserByEmail_def getOrderById_def
  validateRequired_string_def validateEmail_def sample_strings
  sample_store_def DataStore_constructor_def sample_order_def john_def jane_def
  demo_env_def later_env_def expired_env_def jane_login_def jane_token_def Let_def

lemma logged_in_sessions: "sessions logged_in_store = {jane_token}"
  by (simp add: logged_in_store_def session_run_defs)

lemma logged_in_orders: "getOrderById logged_in_store 1 = Some (sample_order d999_99 1699999999000)"
  by (simp add: logged_in_store_def session_run_defs)

theorem session_independence_witness:
  "JWT_SECRET later_env = JWT_SECRET demo_env
   \<and> now later_env div 1000 < now demo_env div 1000 + 86400
   \<and> isValidSession logged_in_store (generateToken demo_env jane)
   \<and> \<not> isValidSession logged_out_store (generateToken demo_env jane)
   \<and> fst (serve later_env (Some (generateToken demo_env jane)) (QueryOrder 1) logged_in_store) =
       Inr (OrderResult (Some (sample_order d999_99 1699999999000)))
   \<and> fst (serve later_env (Some (generateToken demo_env jane)) (QueryOrder 1) logged_out_store) =
       Inr (OrderResult (Some (sample_order d999_99 1699999999000)))
   \<and> requireAuth (createContext later_env (Some (generateToken demo_env jane))) = Inr jane_claims
   \<and> now demo_env div 1000 + 86400 \<le> now expired_env div 1000
   \<and> ctx_user (createContext expired_env (Some (generateToken demo_env jane))) = None"
proof -
  have secret: "JWT_SECRET later_env = JWT_SECRET demo_env"
    "JWT_SECRET expired_env = JWT_SECRET demo_env"
    and early: "now later_env div 1000 < now demo_env div 1000 + 86400"
    and late: "now demo_env div 1000 + 86400 \<le> now expired_env div 1000"
    by (simp_all add: later_env_def expired_env_def demo_env_def)
  have claims: "\<lparr>payload_id = user_id jane, payload_email = email jane,
        payload_username = username jane, payload_iat = now demo_env div 1000,
        payload_exp = now demo_env div 1000 + 86400\<rparr> = jane_claims"
    by (simp add: jane_def jane_claims_def demo_env_def)
  have before: "fst (serve later_env (Some (generateToken demo_env jane)) (QueryOrder 1)
      logged_in_store) = Inr (OrderResult (Some (sample_order d999_99 1699999999000)))"
    using logged_in_orders
    by (simp add: serve_def Query_order_def requireAuth_def createContext_def
        generateToken_def jwt_sign_def later_env_def demo_env_def jane_def sample_order_def)
  note a = session_independence [OF secret(1) early,
      where E' = later_env and a = "Some (generateToken demo_env jane)"
        and op = "QueryOrder 1" and s = logged_in_store and u = jane]
  note b = session_independence [OF secret(1) early,
      where E' = expired_env and a = "Some (generateToken demo_env jane)"
        and op = "QueryOrder 1" and s = logged_in_store and u = jane]
  have out: "logged_out_store
      = snd (serve later_env (Some (generateToken demo_env jane)) Logout logged_in_store)"
    by (simp add: logged_out_store_def jane_token_def)
  from a b before secret early late claims logged_in_sessions
  show ?thesis
    by (simp add: out same_data_def isValidSession_def jane_token_def)
qed

subsection \<open>Order status\<close>









































end
